theory Spec2Isabelle
  imports Complex_Main "HOL-Library.Word" "HOL-Library.Signed_Division"
begin

section \<open>pi-hcsr04: the GPIO pin and the HC-SR04 ranging loop\<close>

text \<open>
  A shallow embedding of \<^verbatim>\<open>gpiopin.c\<close> and \<^verbatim>\<open>hcsr04.c\<close>.

  Conventions of the embedding.
  \<^item> A C \<^verbatim>\<open>int\<close> is a 32-bit word; arithmetic wraps around, comparisons are the
    signed ones (\<open><s\<close>, \<open>\<le>s\<close>) and \<open>sint\<close> reads the value.
  \<^item> A C \<^verbatim>\<open>long\<close> is a 64-bit word (the LP64 data model of 64-bit Linux, 64-bit
    Raspberry Pi OS included). On a 32-bit ARM userland \<^verbatim>\<open>long\<close> has the width of
    \<^verbatim>\<open>int\<close> and the cast \<^verbatim>\<open>(int)\<close> in \<^verbatim>\<open>hcsr04_read_one\<close> is the identity.
  \<^item> A C \<^verbatim>\<open>double\<close> is a real number: rounding, infinities and NaN are not
    modelled. No branch of the program depends on a rounding.
  \<^item> \<^verbatim>\<open>BOOL\<close>, \<^verbatim>\<open>TRUE\<close>, \<^verbatim>\<open>FALSE\<close> are \<open>bool\<close>, \<open>True\<close>, \<open>False\<close>.
  \<^item> A file descriptor held in a struct is an \<open>int\<close>: the program only assigns it
    and compares it with 0.
  \<^item> \<^verbatim>\<open>assert\<close> is active (the program is built without \<^verbatim>\<open>NDEBUG\<close>): a failing
    assertion ends the process, which is the value \<open>Inl (Assert_failed e)\<close>.
  \<^item> \<^verbatim>\<open>malloc\<close> and \<^verbatim>\<open>pthread_create\<close> succeed.
  \<^item> The operating system is a record \<open>world\<close>: what each call would answer, the
    descriptors that are open, the text of \<^verbatim>\<open>strerror (errno)\<close> and the calls made
    so far. Every C function that makes a system call takes the world and returns it.
\<close>

type_synonym c_int = "32 word"
type_synonym c_long = "64 word"

subsection \<open>The operating system\<close>

datatype oflag = O_RDWR | O_RDONLY_NONBLOCK | O_WRONLY

datatype syscall =
    Stream_write string string
  | Open string oflag
  | Close int
  | Write int char
  | Lseek int
  | Poll int c_int
  | Read int nat
  | Usleep c_int
  | Pthread_create

text \<open>
  \<open>fopen_w p\<close> is the answer of \<^verbatim>\<open>fopen (p, "w")\<close>: \<open>None\<close> for a stream, \<open>Some e\<close>
  for \<^verbatim>\<open>NULL\<close> with \<^verbatim>\<open>strerror (errno)\<close> = \<open>e\<close>. \<open>stream_flush p t\<close> is the answer of
  the kernel to the text \<open>t\<close> that \<^verbatim>\<open>fprintf\<close> and \<^verbatim>\<open>fclose\<close> push into the file
  \<open>p\<close>: \<open>None\<close> when it takes the text, \<open>Some e\<close> when it rejects the write (for the
  \<^verbatim>\<open>export\<close> file: a line that is already exported, a line that does not exist).
  \<open>sys_open p f\<close> is the answer of \<^verbatim>\<open>open (p, f)\<close>: a descriptor or an error text.
  \<open>Stream_write p t\<close> in \<open>calls\<close> records a stream opened on \<open>p\<close>, given \<open>t\<close> and
  closed.
\<close>

record world =
  fopen_w :: "string \<Rightarrow> string option"
  stream_flush :: "string \<Rightarrow> string \<Rightarrow> string option"
  sys_open :: "string \<Rightarrow> oflag \<Rightarrow> string + nat"
  errno :: string
  fds :: "int list"
  threads :: nat
  calls :: "syscall list"

datatype abort = Assert_failed string

definition and_then :: "abort + 'a \<Rightarrow> ('a \<Rightarrow> abort + 'b) \<Rightarrow> abort + 'b" where
  "and_then m f = (case m of Inl a \<Rightarrow> Inl a | Inr x \<Rightarrow> f x)"

definition c_open :: "world \<Rightarrow> string \<Rightarrow> oflag \<Rightarrow> world \<times> int" where
  "c_open w path flag =
     (case sys_open w path flag of
        Inr fd \<Rightarrow> (w\<lparr>fds := int fd # fds w, calls := calls w @ [Open path flag]\<rparr>, int fd)
      | Inl e \<Rightarrow> (w\<lparr>errno := e, calls := calls w @ [Open path flag]\<rparr>, - 1))"

definition c_close :: "world \<Rightarrow> int \<Rightarrow> world" where
  "c_close w fd = w\<lparr>fds := removeAll fd (fds w), calls := calls w @ [Close fd]\<rparr>"

definition c_write :: "world \<Rightarrow> int \<Rightarrow> char \<Rightarrow> world" where
  "c_write w fd c = w\<lparr>calls := calls w @ [Write fd c]\<rparr>"

definition c_lseek :: "world \<Rightarrow> int \<Rightarrow> world" where
  "c_lseek w fd = w\<lparr>calls := calls w @ [Lseek fd]\<rparr>"

definition c_poll :: "world \<Rightarrow> int \<Rightarrow> c_int \<Rightarrow> world" where
  "c_poll w fd timeout = w\<lparr>calls := calls w @ [Poll fd timeout]\<rparr>"

definition c_read :: "world \<Rightarrow> int \<Rightarrow> nat \<Rightarrow> world" where
  "c_read w fd n = w\<lparr>calls := calls w @ [Read fd n]\<rparr>"

definition c_usleep :: "world \<Rightarrow> c_int \<Rightarrow> world" where
  "c_usleep w usec = w\<lparr>calls := calls w @ [Usleep usec]\<rparr>"

definition c_pthread_create :: "world \<Rightarrow> world \<times> nat" where
  "c_pthread_create w =
     (w\<lparr>threads := Suc (threads w), calls := calls w @ [Pthread_create]\<rparr>, Suc (threads w))"

subsection \<open>Formatting\<close>

text \<open>\<^verbatim>\<open>%d\<close> of \<^verbatim>\<open>snprintf\<close>, and the cut of \<^verbatim>\<open>snprintf (s, sizeof (s), ...)\<close> into
  \<^verbatim>\<open>char s[50]\<close>: at most 49 characters.\<close>

fun string_of_nat :: "nat \<Rightarrow> string" where
  "string_of_nat n =
     (if n < 10 then [''0123456789'' ! n]
      else string_of_nat (n div 10) @ [''0123456789'' ! (n mod 10)])"

declare string_of_nat.simps [simp del]

definition string_of_int :: "int \<Rightarrow> string" where
  "string_of_int i = (if i < 0 then CHR ''-'' # string_of_nat (nat (- i)) else string_of_nat (nat i))"

definition snprintf50 :: "string \<Rightarrow> string" where
  "snprintf50 s = take 49 s"

definition cant_open :: "string \<Rightarrow> string \<Rightarrow> string" where
  "cant_open filename e = ''Can't open '' @ filename @ '' for writing: '' @ e"

text \<open>\<^verbatim>\<open>snprintf (s, sizeof (s), "/sys/class/gpio/gpio%d/<leaf>", pin)\<close> and
  \<^verbatim>\<open>snprintf (s, sizeof (s), "%d", pin)\<close>.\<close>

definition gpio_path :: "c_int \<Rightarrow> string \<Rightarrow> string" where
  "gpio_path p leaf = snprintf50 (''/sys/class/gpio/gpio'' @ string_of_int (sint p) @ ''/'' @ leaf)"

definition pin_text :: "c_int \<Rightarrow> string" where
  "pin_text p = snprintf50 (string_of_int (sint p))"

subsection \<open>gpiopin.h, gpiopin.c\<close>

datatype GPIOPinDirection = GPIOPIN_IN | GPIOPIN_OUT

datatype GPIOPinTrigger = GPIOPIN_NONE | GPIOPIN_RISING | GPIOPIN_FALLING | GPIOPIN_BOTH

record GPIOPin =
  pin :: c_int
  value_fd :: int

text \<open>Modelled from the spec: \<^verbatim>\<open>defs.h\<close> is not among the sources; \<^verbatim>\<open>BOOL\<close> is the
  type of truth values, with \<^verbatim>\<open>TRUE\<close> and \<^verbatim>\<open>FALSE\<close>, and \<^verbatim>\<open>LOW\<close> and \<^verbatim>\<open>HIGH\<close> are
  the two levels of a line, false and true.\<close>

definition LOW :: bool where
  "LOW = False"

definition HIGH :: bool where
  "HIGH = True"

definition gpiopin_create :: "c_int \<Rightarrow> GPIOPin" where
  "gpiopin_create p = \<lparr>pin = p, value_fd = - 1\<rparr>"

text \<open>\<open>error\<close> says whether the caller passed a place for the message
  (\<^verbatim>\<open>error != NULL\<close>); the third component of the result is the message stored there,
  if any.\<close>

definition gpiopin_write_to_file ::
  "world \<Rightarrow> string \<Rightarrow> string \<Rightarrow> bool \<Rightarrow> world \<times> bool \<times> string option" where
  "gpiopin_write_to_file w filename text_w error =
     (case fopen_w w filename of
        None \<Rightarrow>
          (let w1 = w\<lparr>calls := calls w @ [Stream_write filename text_w]\<rparr>;
               w2 = (case stream_flush w filename text_w of
                       None \<Rightarrow> w1 | Some e \<Rightarrow> w1\<lparr>errno := e\<rparr>)
           in (w2, True, None))
      | Some e \<Rightarrow>
          (w\<lparr>errno := e\<rparr>, False, if error then Some (cant_open filename e) else None))"

definition gpiopin_uninit :: "world \<Rightarrow> GPIOPin \<Rightarrow> world \<times> GPIOPin" where
  "gpiopin_uninit w self =
     (let w1 = (if 0 \<le> value_fd self then c_close w (value_fd self) else w);
          self1 = self\<lparr>value_fd := - 1\<rparr>;
          s = pin_text (pin self);
          (w2, _, _) = gpiopin_write_to_file w1 ''/sys/class/gpio/unexport'' s False
      in (w2, self1))"

definition gpiopin_destroy :: "world \<Rightarrow> GPIOPin \<Rightarrow> world" where
  "gpiopin_destroy w self = fst (gpiopin_uninit w self)"

definition gpiopin_init ::
  "world \<Rightarrow> GPIOPin \<Rightarrow> GPIOPinDirection \<Rightarrow> bool \<Rightarrow> world \<times> GPIOPin \<times> bool \<times> string option" where
  "gpiopin_init w self dir error =
     (let s = pin_text (pin self);
          (w1, ret, msg) = gpiopin_write_to_file w ''/sys/class/gpio/export'' s error
      in if ret then
           (let s = gpio_path (pin self) ''direction'';
                (w2, _, _) = (if dir = GPIOPIN_OUT then gpiopin_write_to_file w1 s ''out'' False
                              else gpiopin_write_to_file w1 s ''in'' False);
                s = gpio_path (pin self) ''value'';
                (w3, fd) = (if dir = GPIOPIN_OUT then c_open w2 s O_RDWR
                            else c_open w2 s O_RDONLY_NONBLOCK);
                self1 = self\<lparr>value_fd := fd\<rparr>
            in if 0 \<le> value_fd self1 then (w3, self1, True, None)
               else (w3, self1, False, if error then Some (cant_open s (errno w3)) else None))
         else (w1, self, ret, msg))"

definition gpiopin_set :: "world \<Rightarrow> GPIOPin \<Rightarrow> bool \<Rightarrow> abort + world" where
  "gpiopin_set w self val =
     (if 0 \<le> value_fd self
      then Inr (c_write w (value_fd self) (if val then CHR ''1'' else CHR ''0''))
      else Inl (Assert_failed ''self->value_fd >= 0''))"

definition gpiopin_set_trigger :: "world \<Rightarrow> GPIOPin \<Rightarrow> GPIOPinTrigger \<Rightarrow> abort + world" where
  "gpiopin_set_trigger w self trigger =
     (let s = gpio_path (pin self) ''edge'';
          (w1, f) = c_open w s O_WRONLY
      in if 0 \<le> f then
           (let (w2, _, _) =
                  (case trigger of
                     GPIOPIN_BOTH \<Rightarrow> gpiopin_write_to_file w1 s ''both'' False
                   | GPIOPIN_RISING \<Rightarrow> gpiopin_write_to_file w1 s ''rising'' False
                   | GPIOPIN_FALLING \<Rightarrow> gpiopin_write_to_file w1 s ''falling'' False
                   | GPIOPIN_NONE \<Rightarrow> gpiopin_write_to_file w1 s ''none'' False)
            in Inr (c_close w2 f))
         else Inl (Assert_failed ''f >= 0''))"

definition gpiopin_wait_for_trigger :: "world \<Rightarrow> GPIOPin \<Rightarrow> c_int \<Rightarrow> abort + world" where
  "gpiopin_wait_for_trigger w self usec =
     (if 0 \<le> value_fd self then
        (let w1 = c_lseek w (value_fd self);
             w2 = c_poll w1 (value_fd self) (word_of_int (sint usec sdiv 1000));
             w3 = c_read w2 (value_fd self) 50
         in Inr w3)
      else Inl (Assert_failed ''self->value_fd >= 0''))"

subsection \<open>hcsr04.h, hcsr04.c\<close>

definition HCSR04_MIN_CYCLE :: c_int where
  "HCSR04_MIN_CYCLE = 60"

definition HCSR04_MAX_RANGE :: real where
  "HCSR04_MAX_RANGE = 4"

definition HCSR04_VALID_SAMPLES :: c_int where
  "HCSR04_VALID_SAMPLES = 4"

definition USEC_TO_METRES :: real where
  "USEC_TO_METRES = 1715 / 10000000"

text \<open>The conversion \<^verbatim>\<open>(int)\<close> of a \<^verbatim>\<open>double\<close>: the fraction is dropped.
  \<open>USEC_TO_METRES\<close> is the decimal \<^verbatim>\<open>0.0001715\<close>.\<close>

definition int_of_double :: "real \<Rightarrow> c_int" where
  "int_of_double r = word_of_int (if 0 \<le> r then \<lfloor>r\<rfloor> else \<lceil>r\<rceil>)"

record HCSR04 =
  sound_pin :: c_int
  echo_pin :: c_int
  max_time :: c_int
  pthread :: nat
  stop :: bool
  gpiopin_sound :: GPIOPin
  gpiopin_echo :: GPIOPin
  cycle_usec :: c_int
  avg :: real
  smoothing :: real
  good_count :: c_int

record timeval =
  tv_sec :: c_long
  tv_usec :: c_long

text \<open>\<open>tv\<close> is what \<^verbatim>\<open>gettimeofday\<close> stores at this call.\<close>

definition get_system_time_usec :: "timeval \<Rightarrow> c_long" where
  "get_system_time_usec tv = tv_usec tv + tv_sec tv * 1000000"

definition hcsr04_create :: "c_int \<Rightarrow> c_int \<Rightarrow> c_int \<Rightarrow> real \<Rightarrow> HCSR04" where
  "hcsr04_create sound_pin_a echo_pin_a cycle_msec smoothing_a =
     \<lparr>sound_pin = sound_pin_a,
      echo_pin = echo_pin_a,
      max_time = int_of_double (HCSR04_MAX_RANGE / USEC_TO_METRES),
      pthread = 0,
      stop = False,
      gpiopin_sound = gpiopin_create sound_pin_a,
      gpiopin_echo = gpiopin_create echo_pin_a,
      cycle_usec = cycle_msec * 1000,
      avg = 0,
      smoothing = smoothing_a,
      good_count = 0\<rparr>"

text \<open>\<open>tv1\<close> and \<open>tv2\<close> are the two readings of the clock, after the wait for the
  rising edge and after the wait for the falling edge.\<close>

definition hcsr04_read_one :: "world \<Rightarrow> HCSR04 \<Rightarrow> timeval \<Rightarrow> timeval \<Rightarrow> abort + world \<times> real" where
  "hcsr04_read_one w self tv1 tv2 =
     and_then (gpiopin_set w (gpiopin_sound self) HIGH) (\<lambda>w1.
     and_then (gpiopin_set (c_usleep w1 100) (gpiopin_sound self) LOW) (\<lambda>w2.
     and_then (gpiopin_set_trigger w2 (gpiopin_echo self) GPIOPIN_RISING) (\<lambda>w3.
     and_then (gpiopin_wait_for_trigger w3 (gpiopin_echo self) 500000) (\<lambda>w4.
     let start = get_system_time_usec tv1 in
     and_then (gpiopin_set_trigger w4 (gpiopin_echo self) GPIOPIN_FALLING) (\<lambda>w5.
     and_then (gpiopin_wait_for_trigger w5 (gpiopin_echo self) 500000) (\<lambda>w6.
     let end_t = get_system_time_usec tv2;
         diff = (scast (end_t - start) :: c_int)
     in if max_time self <s diff then Inr (w6, - 1)
        else Inr (w6, USEC_TO_METRES * real_of_int (sint (end_t - start)))))))))"

text \<open>One turn of the \<^verbatim>\<open>while\<close> loop of \<^verbatim>\<open>hcsr04_loop\<close>; \<open>c\<close> holds the two clock
  readings of this turn.\<close>

definition hcsr04_loop_body :: "world \<Rightarrow> HCSR04 \<Rightarrow> timeval \<times> timeval \<Rightarrow> abort + world \<times> HCSR04" where
  "hcsr04_loop_body w self c =
     and_then (hcsr04_read_one w self (fst c) (snd c)) (\<lambda>(w1, d).
     let self2 =
       (if 0 < d then
          (let self1 = self\<lparr>avg := d * (1 - smoothing self) + avg self * smoothing self,
                            good_count := good_count self + 1\<rparr>
           in if HCSR04_VALID_SAMPLES <s good_count self1
              then self1\<lparr>good_count := HCSR04_VALID_SAMPLES\<rparr> else self1)
        else
          (let self1 = self\<lparr>good_count := good_count self - 1\<rparr>
           in if good_count self1 <s 0 then self1\<lparr>good_count := 0\<rparr> else self1))
     in Inr (c_usleep w1 (cycle_usec self2), self2))"

text \<open>The loop, for the turns whose clock readings are given: it leaves at once when
  \<open>stop\<close> is set, and the list ends where the observation of the thread ends.\<close>

fun hcsr04_loop :: "world \<Rightarrow> HCSR04 \<Rightarrow> (timeval \<times> timeval) list \<Rightarrow> abort + world \<times> HCSR04" where
  "hcsr04_loop w self [] = Inr (w, self)"
| "hcsr04_loop w self (c # cs) =
     (if stop self then Inr (w, self)
      else and_then (hcsr04_loop_body w self c) (\<lambda>(w1, self1). hcsr04_loop w1 self1 cs))"

text \<open>The thread that \<^verbatim>\<open>pthread_create\<close> starts runs \<^verbatim>\<open>hcsr04_loop\<close> on the object
  that \<open>hcsr04_init\<close> returns; \<^verbatim>\<open>pthread_detach\<close> changes nothing here.\<close>

definition hcsr04_init ::
  "world \<Rightarrow> HCSR04 \<Rightarrow> bool \<Rightarrow> abort + world \<times> HCSR04 \<times> bool \<times> string option" where
  "hcsr04_init w self error =
     (let self1 = self\<lparr>avg := 0, good_count := 0\<rparr>;
          (w1, echo1, ok, msg) = gpiopin_init w (gpiopin_echo self1) GPIOPIN_IN error;
          self2 = self1\<lparr>gpiopin_echo := echo1\<rparr>
      in if ok then
           (let (w2, sound1, _, _) = gpiopin_init w1 (gpiopin_sound self2) GPIOPIN_OUT False;
                self3 = self2\<lparr>gpiopin_sound := sound1\<rparr>
            in and_then (gpiopin_set w2 (gpiopin_sound self3) LOW) (\<lambda>w3.
               let (w4, pt) = c_pthread_create w3
               in Inr (w4, self3\<lparr>pthread := pt\<rparr>, True, None)))
         else Inr (w1, self2, False, msg))"

definition hcsr04_uninit :: "world \<Rightarrow> HCSR04 \<Rightarrow> world \<times> HCSR04" where
  "hcsr04_uninit w self =
     (let self1 = self\<lparr>stop := True\<rparr>;
          (w1, sound1) = gpiopin_uninit w (gpiopin_sound self1);
          (w2, echo1) = gpiopin_uninit w1 (gpiopin_echo self1)
      in (w2, self1\<lparr>gpiopin_sound := sound1, gpiopin_echo := echo1\<rparr>))"

definition hcsr04_destroy :: "world \<Rightarrow> HCSR04 \<Rightarrow> world" where
  "hcsr04_destroy w self =
     (let (w1, self1) = hcsr04_uninit w self;
          w2 = gpiopin_destroy w1 (gpiopin_sound self1)
      in gpiopin_destroy w2 (gpiopin_echo self1))"

definition hcsr04_is_distance_valid :: "HCSR04 \<Rightarrow> bool" where
  "hcsr04_is_distance_valid self = (HCSR04_VALID_SAMPLES \<le>s good_count self)"

definition hcsr04_get_distance :: "HCSR04 \<Rightarrow> real" where
  "hcsr04_get_distance self = (if hcsr04_is_distance_valid self then avg self else - 1)"

subsection \<open>Derived notions\<close>

text \<open>The value that \<open>hcsr04_read_one\<close> returns for the clock readings \<open>c\<close>, and the
  statement that both lines are open and the echo line's \<^verbatim>\<open>edge\<close> file can be opened,
  under which no assertion of a measurement fails.\<close>

definition hcsr04_reading :: "HCSR04 \<Rightarrow> timeval \<times> timeval \<Rightarrow> real" where
  "hcsr04_reading self c =
     (let elapsed = get_system_time_usec (snd c) - get_system_time_usec (fst c)
      in if max_time self <s (scast elapsed :: c_int) then - 1
         else USEC_TO_METRES * real_of_int (sint elapsed))"

definition hcsr04_lines_open :: "world \<Rightarrow> HCSR04 \<Rightarrow> bool" where
  "hcsr04_lines_open w self =
     (0 \<le> value_fd (gpiopin_sound self) \<and> 0 \<le> value_fd (gpiopin_echo self) \<and>
      \<not> isl (sys_open w (gpio_path (pin (gpiopin_echo self)) ''edge'') O_WRONLY))"

subsection \<open>Concrete systems and sensors\<close>

text \<open>A system on which every call succeeds (the value files of lines 17 and 27 open
  as descriptors 3 and 4), and variants of it: the \<^verbatim>\<open>export\<close> file cannot be opened;
  the \<^verbatim>\<open>export\<close> file opens and the kernel rejects the line number written to it;
  no value file can be opened; the value file of line 17 cannot be opened.\<close>

definition world_ok :: world where
  "world_ok =
     \<lparr>fopen_w = (\<lambda>p. None),
      stream_flush = (\<lambda>p t. None),
      sys_open = (\<lambda>p f. if p = ''/sys/class/gpio/gpio17/value'' then Inr 3
                          else if p = ''/sys/class/gpio/gpio27/value'' then Inr 4 else Inr 5),
      errno = ''Success'',
      fds = [0, 1, 2],
      threads = 0,
      calls = []\<rparr>"

definition world_export_denied :: world where
  "world_export_denied =
     world_ok\<lparr>fopen_w := (\<lambda>p. if p = ''/sys/class/gpio/export''
                                 then Some ''Permission denied'' else None)\<rparr>"

definition world_export_busy :: world where
  "world_export_busy =
     world_ok\<lparr>stream_flush := (\<lambda>p t. if p = ''/sys/class/gpio/export''
                                        then Some ''Device or resource busy'' else None)\<rparr>"

definition world_no_value :: world where
  "world_no_value =
     world_ok\<lparr>sys_open := (\<lambda>p f. Inl ''No such file or directory'')\<rparr>"

definition world_sound_fails :: world where
  "world_sound_fails =
     world_ok\<lparr>sys_open := (\<lambda>p f. if p = ''/sys/class/gpio/gpio17/value''
                                    then Inl ''Permission denied'' else Inr 4)\<rparr>"

text \<open>A sensor on lines 17 and 27 whose lines are open, with two good samples counted
  and an average of one metre; clock readings.\<close>

definition sensor_running :: HCSR04 where
  "sensor_running =
     (hcsr04_create 17 27 240 (1 / 2))
       \<lparr>gpiopin_sound := \<lparr>pin = 17, value_fd = 3\<rparr>,
        gpiopin_echo := \<lparr>pin = 27, value_fd = 4\<rparr>,
        avg := 1, good_count := 2\<rparr>"

definition clock_at :: "c_long \<Rightarrow> c_long \<Rightarrow> timeval" where
  "clock_at s us = \<lparr>tv_sec = s, tv_usec = us\<rparr>"

section \<open>Arithmetic of the counter\<close>

lemma sint_inc32:
  fixes x :: c_int
  assumes "sint x < 2147483647"
  shows "sint (x + 1) = sint x + 1"
proof -
  have "- (2 ^ 31) \<le> sint x" using sint_ge [of x] by simp
  then show ?thesis using assms
    by (simp add: sint_word_ariths signed_take_bit_int_eq_self)
qed

lemma sint_dec32:
  fixes x :: c_int
  assumes "- 2147483648 < sint x"
  shows "sint (x - 1) = sint x - 1"
proof -
  have "sint x < 2 ^ 31" using sint_lt [of x] by simp
  then show ?thesis using assms
    by (simp add: sint_word_ariths signed_take_bit_int_eq_self)
qed

lemma sint_VALID_SAMPLES: "sint HCSR04_VALID_SAMPLES = 4"
  by (simp add: HCSR04_VALID_SAMPLES_def)

lemma good_count_up:
  fixes g :: c_int
  assumes "sint g < 2147483647"
  shows "sint (if HCSR04_VALID_SAMPLES <s g + 1 then HCSR04_VALID_SAMPLES else g + 1)
           = min 4 (sint g + 1)"
  using assms by (simp add: word_sless_alt sint_inc32 sint_VALID_SAMPLES)

lemma good_count_down:
  fixes g :: c_int
  assumes "- 2147483648 < sint g"
  shows "sint (if g - 1 <s 0 then 0 else g - 1) = max 0 (sint g - 1)"
  using assms by (simp add: word_sless_alt sint_dec32)

lemma hcsr04_is_distance_valid_sint:
  "hcsr04_is_distance_valid s \<longleftrightarrow> sint HCSR04_VALID_SAMPLES \<le> sint (good_count s)"
  by (simp add: hcsr04_is_distance_valid_def word_sle_eq)

section \<open>Paths and the concrete systems\<close>

lemma pin_text_17: "pin_text 17 = ''17''"
  by (simp add: pin_text_def snprintf50_def string_of_int_def string_of_nat.simps)

lemma gpio_path_17_value: "gpio_path 17 ''value'' = ''/sys/class/gpio/gpio17/value''"
  by (simp add: gpio_path_def snprintf50_def string_of_int_def string_of_nat.simps)

lemma gpio_path_27_value: "gpio_path 27 ''value'' = ''/sys/class/gpio/gpio27/value''"
  by (simp add: gpio_path_def snprintf50_def string_of_int_def string_of_nat.simps)


lemma sensor_running_open: "hcsr04_lines_open world_ok sensor_running"
  by (simp add: hcsr04_lines_open_def world_ok_def sensor_running_def)

lemma sensor_running_max_time: "max_time sensor_running = 23323"
  by (simp add: sensor_running_def hcsr04_create_def int_of_double_def
      HCSR04_MAX_RANGE_def USEC_TO_METRES_def)

lemma reading_5831:
  "hcsr04_reading sensor_running (clock_at 1600000000 0, clock_at 1600000000 5831)
     = 2000033 / 2000000"
  by (simp add: hcsr04_reading_def sensor_running_max_time clock_at_def get_system_time_usec_def
      USEC_TO_METRES_def word_sless_alt)

lemma reading_timeout:
  "hcsr04_reading sensor_running (clock_at 1600000000 0, clock_at 1600000000 500000) = - 1"
  by (simp add: hcsr04_reading_def sensor_running_max_time clock_at_def get_system_time_usec_def
      USEC_TO_METRES_def word_sless_alt)

lemma reading_zero:
  "hcsr04_reading sensor_running (clock_at 1600000000 0, clock_at 1600000000 0) = 0"
  by (simp add: hcsr04_reading_def sensor_running_max_time clock_at_def get_system_time_usec_def
      USEC_TO_METRES_def word_sless_alt)

section \<open>The GPIO line\<close>

text \<open>Writing to a control file changes neither the open descriptors nor what the
  system answers, and it succeeds exactly when the file can be opened.\<close>

lemma gpiopin_write_to_file_frame:
  "\<exists>w' r m. gpiopin_write_to_file w f t e = (w', r, m) \<and> (r \<longleftrightarrow> fopen_w w f = None) \<and>
     fds w' = fds w \<and> threads w' = threads w \<and> fopen_w w' = fopen_w w \<and>
     stream_flush w' = stream_flush w \<and> sys_open w' = sys_open w"
proof (cases "fopen_w w f")
  case None
  then show ?thesis
    by (cases "stream_flush w f t") (auto simp: gpiopin_write_to_file_def)
next
  case (Some a)
  then show ?thesis by (auto simp: gpiopin_write_to_file_def)
qed

lemma gpiopin_write_to_file_opened:
  assumes "fopen_w w f = None"
  shows "\<exists>w'. gpiopin_write_to_file w f t e = (w', True, None) \<and>
     fds w' = fds w \<and> threads w' = threads w \<and> fopen_w w' = fopen_w w \<and>
     stream_flush w' = stream_flush w \<and> sys_open w' = sys_open w"
  using assms
  by (cases "stream_flush w f t") (simp_all add: gpiopin_write_to_file_def)

lemma gpiopin_init_export_fails:
  assumes "fopen_w w ''/sys/class/gpio/export'' = Some e"
  shows "gpiopin_init w self dir error =
           (w\<lparr>errno := e\<rparr>, self, False,
            if error then Some (cant_open ''/sys/class/gpio/export'' e) else None)"
  using assms by (simp add: gpiopin_init_def gpiopin_write_to_file_def)

lemma gpiopin_init_exported:
  assumes "fopen_w w ''/sys/class/gpio/export'' = None"
  shows "\<exists>w2. gpiopin_init w self dir error =
           (let (w3, fd) = c_open w2 (gpio_path (pin self) ''value'')
                             (if dir = GPIOPIN_OUT then O_RDWR else O_RDONLY_NONBLOCK)
            in if 0 \<le> fd then (w3, self\<lparr>value_fd := fd\<rparr>, True, None)
               else (w3, self\<lparr>value_fd := fd\<rparr>, False,
                     if error then Some (cant_open (gpio_path (pin self) ''value'') (errno w3))
                     else None)) \<and>
         fds w2 = fds w \<and> threads w2 = threads w \<and> fopen_w w2 = fopen_w w \<and>
         stream_flush w2 = stream_flush w \<and> sys_open w2 = sys_open w"
proof -
  obtain w1 where e: "gpiopin_write_to_file w ''/sys/class/gpio/export'' (pin_text (pin self)) error
                        = (w1, True, None)"
    and f1: "fds w1 = fds w" "threads w1 = threads w" "fopen_w w1 = fopen_w w"
      "stream_flush w1 = stream_flush w" "sys_open w1 = sys_open w"
    using gpiopin_write_to_file_opened [OF assms] by blast
  obtain w2 r m where d: "gpiopin_write_to_file w1 (gpio_path (pin self) ''direction'')
                            (if dir = GPIOPIN_OUT then ''out'' else ''in'') False = (w2, r, m)"
    and f2: "fds w2 = fds w1" "threads w2 = threads w1" "fopen_w w2 = fopen_w w1"
      "stream_flush w2 = stream_flush w1" "sys_open w2 = sys_open w1"
    using gpiopin_write_to_file_frame by blast
  have "gpiopin_init w self dir error =
           (let (w3, fd) = c_open w2 (gpio_path (pin self) ''value'')
                             (if dir = GPIOPIN_OUT then O_RDWR else O_RDONLY_NONBLOCK)
            in if 0 \<le> fd then (w3, self\<lparr>value_fd := fd\<rparr>, True, None)
               else (w3, self\<lparr>value_fd := fd\<rparr>, False,
                     if error then Some (cant_open (gpio_path (pin self) ''value'') (errno w3))
                     else None))"
    using e d by (cases dir) (simp_all add: gpiopin_init_def Let_def split: prod.splits)
  then show ?thesis using f1 f2 by auto
qed

lemma gpiopin_init_open_fails:
  assumes "fopen_w w ''/sys/class/gpio/export'' = None"
    and "sys_open w (gpio_path (pin self) ''value'')
           (if dir = GPIOPIN_OUT then O_RDWR else O_RDONLY_NONBLOCK) = Inl e"
  shows "\<exists>w'. gpiopin_init w self dir error =
           (w', self\<lparr>value_fd := - 1\<rparr>, False,
            if error then Some (cant_open (gpio_path (pin self) ''value'') e) else None) \<and>
         fds w' = fds w \<and> threads w' = threads w \<and> fopen_w w' = fopen_w w \<and>
         stream_flush w' = stream_flush w \<and> sys_open w' = sys_open w"
proof -
  obtain w2 where i: "gpiopin_init w self dir error =
           (let (w3, fd) = c_open w2 (gpio_path (pin self) ''value'')
                             (if dir = GPIOPIN_OUT then O_RDWR else O_RDONLY_NONBLOCK)
            in if 0 \<le> fd then (w3, self\<lparr>value_fd := fd\<rparr>, True, None)
               else (w3, self\<lparr>value_fd := fd\<rparr>, False,
                     if error then Some (cant_open (gpio_path (pin self) ''value'') (errno w3))
                     else None))"
    and f: "fds w2 = fds w" "threads w2 = threads w" "fopen_w w2 = fopen_w w"
         "stream_flush w2 = stream_flush w" "sys_open w2 = sys_open w"
    using gpiopin_init_exported [OF assms(1)] by blast
  show ?thesis unfolding i using assms(2) f by (simp add: c_open_def)
qed

lemma gpiopin_init_succeeds:
  assumes "fopen_w w ''/sys/class/gpio/export'' = None"
    and "sys_open w (gpio_path (pin self) ''value'')
           (if dir = GPIOPIN_OUT then O_RDWR else O_RDONLY_NONBLOCK) = Inr fd"
  shows "\<exists>w'. gpiopin_init w self dir error = (w', self\<lparr>value_fd := int fd\<rparr>, True, None) \<and>
         fds w' = int fd # fds w \<and> threads w' = threads w \<and> fopen_w w' = fopen_w w \<and>
         stream_flush w' = stream_flush w \<and> sys_open w' = sys_open w"
proof -
  obtain w2 where i: "gpiopin_init w self dir error =
           (let (w3, fd) = c_open w2 (gpio_path (pin self) ''value'')
                             (if dir = GPIOPIN_OUT then O_RDWR else O_RDONLY_NONBLOCK)
            in if 0 \<le> fd then (w3, self\<lparr>value_fd := fd\<rparr>, True, None)
               else (w3, self\<lparr>value_fd := fd\<rparr>, False,
                     if error then Some (cant_open (gpio_path (pin self) ''value'') (errno w3))
                     else None))"
    and f: "fds w2 = fds w" "threads w2 = threads w" "fopen_w w2 = fopen_w w"
         "stream_flush w2 = stream_flush w" "sys_open w2 = sys_open w"
    using gpiopin_init_exported [OF assms(1)] by blast
  show ?thesis unfolding i using assms(2) f by (simp add: c_open_def)
qed

lemma gpiopin_init_frame:
  assumes "gpiopin_init w self dir error = (w', self', ret, msg)"
  shows "threads w' = threads w \<and> sys_open w' = sys_open w \<and> fopen_w w' = fopen_w w \<and>
    stream_flush w' = stream_flush w \<and> pin self' = pin self \<and>
    (ret \<longrightarrow> 0 \<le> value_fd self' \<and> msg = None) \<and>
    (\<not> ret \<longrightarrow> (error \<longrightarrow> msg \<noteq> None) \<and> (value_fd self = - 1 \<longrightarrow> value_fd self' = - 1))"
proof (cases "fopen_w w ''/sys/class/gpio/export''")
  case (Some e)
  show ?thesis using assms unfolding gpiopin_init_export_fails [OF Some] by auto
next
  case None
  show ?thesis
  proof (cases "sys_open w (gpio_path (pin self) ''value'')
           (if dir = GPIOPIN_OUT then O_RDWR else O_RDONLY_NONBLOCK)")
    case (Inl e)
    show ?thesis using gpiopin_init_open_fails [OF None Inl, of error] assms by auto
  next
    case (Inr fd)
    show ?thesis using gpiopin_init_succeeds [OF None Inr, of error] assms by auto
  qed
qed

lemma gpiopin_uninit_closed:
  assumes "value_fd self = - 1"
  shows "snd (gpiopin_uninit w self) = self \<and> fds (fst (gpiopin_uninit w self)) = fds w"
proof -
  obtain w' r m where
    u: "gpiopin_write_to_file w ''/sys/class/gpio/unexport'' (pin_text (pin self)) False = (w', r, m)"
    and f: "fds w' = fds w"
    using gpiopin_write_to_file_frame by blast
  have "self\<lparr>value_fd := - 1\<rparr> = self" using assms by (cases self) simp
  then show ?thesis using assms u f by (simp add: gpiopin_uninit_def Let_def)
qed

text \<open>
  Claim C7, as amended. On a line that is not initialized (\<open>value_fd = -1\<close>),
  \<open>gpiopin_init\<close> has three outcomes, decided by what the system answers.
  \<^item> The \<^verbatim>\<open>export\<close> file cannot be opened for writing: the call fails, the message
    (stored when the caller gave a place for it) is "Can't open /sys/class/gpio/export
    for writing:" and the system's error text. This is the acquisition error.
  \<^item> The \<^verbatim>\<open>export\<close> file can be opened and the line's value file cannot: the call
    fails, and the message names the value file. This is the open error.
  \<^item> Both can be opened: the call succeeds and the line holds the new descriptor.

  What the kernel answers to the text written into the \<^verbatim>\<open>export\<close> file plays no part.
  After either failure the line still has no descriptor, the set of open descriptors
  is the one before the call, and \<open>gpiopin_uninit\<close> on the line closes nothing and
  leaves the line as it is.
\<close>

theorem gpiopin_init_outcomes:
  assumes "value_fd self = - 1"
  shows
    "case fopen_w w ''/sys/class/gpio/export'' of
       Some e \<Rightarrow>
         gpiopin_init w self dir error =
           (w\<lparr>errno := e\<rparr>, self, False,
            if error then Some (cant_open ''/sys/class/gpio/export'' e) else None) \<and>
         fds (w\<lparr>errno := e\<rparr>) = fds w \<and>
         snd (gpiopin_uninit (w\<lparr>errno := e\<rparr>) self) = self \<and>
         fds (fst (gpiopin_uninit (w\<lparr>errno := e\<rparr>) self)) = fds w
     | None \<Rightarrow>
         (case sys_open w (gpio_path (pin self) ''value'')
                 (if dir = GPIOPIN_OUT then O_RDWR else O_RDONLY_NONBLOCK) of
            Inl e \<Rightarrow>
              (\<exists>w'. gpiopin_init w self dir error =
                      (w', self, False,
                       if error then Some (cant_open (gpio_path (pin self) ''value'') e) else None) \<and>
                    fds w' = fds w \<and>
                    snd (gpiopin_uninit w' self) = self \<and>
                    fds (fst (gpiopin_uninit w' self)) = fds w)
          | Inr fd \<Rightarrow>
              (\<exists>w'. gpiopin_init w self dir error = (w', self\<lparr>value_fd := int fd\<rparr>, True, None) \<and>
                    fds w' = int fd # fds w))"
proof (cases "fopen_w w ''/sys/class/gpio/export''")
  case (Some e)
  show ?thesis
    using gpiopin_init_export_fails [OF Some, of self dir error]
      gpiopin_uninit_closed [OF assms, of "w\<lparr>errno := e\<rparr>"] Some
    by simp
next
  case None
  have s: "self\<lparr>value_fd := - 1\<rparr> = self" using assms by (cases self) simp
  show ?thesis
  proof (cases "sys_open w (gpio_path (pin self) ''value'')
           (if dir = GPIOPIN_OUT then O_RDWR else O_RDONLY_NONBLOCK)")
    case (Inl e)
    obtain w' where i: "gpiopin_init w self dir error =
           (w', self, False,
            if error then Some (cant_open (gpio_path (pin self) ''value'') e) else None)"
      and f: "fds w' = fds w"
      using gpiopin_init_open_fails [OF None Inl, of error] s by auto
    show ?thesis
      using i f gpiopin_uninit_closed [OF assms, of w'] None Inl by auto
  next
    case (Inr fd)
    show ?thesis using gpiopin_init_succeeds [OF None Inr, of error] None Inr by auto
  qed
qed

text \<open>The theorem at line 17: where the \<^verbatim>\<open>export\<close> file is not writable, and where no
  value file can be opened.\<close>

theorem gpiopin_init_outcomes_witness:
  "value_fd (gpiopin_create 17) = - 1 \<and>
   gpiopin_init world_export_denied (gpiopin_create 17) GPIOPIN_OUT True =
     (world_export_denied\<lparr>errno := ''Permission denied''\<rparr>, gpiopin_create 17, False,
      Some ''Can't open /sys/class/gpio/export for writing: Permission denied'') \<and>
   (\<exists>w'. gpiopin_init world_no_value (gpiopin_create 17) GPIOPIN_OUT True =
      (w', gpiopin_create 17, False,
       Some ''Can't open /sys/class/gpio/gpio17/value for writing: No such file or directory'') \<and>
      fds w' = fds world_no_value)"
proof -
  have c: "value_fd (gpiopin_create 17) = - 1" "pin (gpiopin_create 17) = 17"
    by (simp_all add: gpiopin_create_def)
  have a: "gpiopin_init world_export_denied (gpiopin_create 17) GPIOPIN_OUT True =
     (world_export_denied\<lparr>errno := ''Permission denied''\<rparr>, gpiopin_create 17, False,
      Some ''Can't open /sys/class/gpio/export for writing: Permission denied'')"
    using gpiopin_init_outcomes [OF c(1), of world_export_denied GPIOPIN_OUT True]
    by (simp add: world_export_denied_def cant_open_def)
  have b: "\<exists>w'. gpiopin_init world_no_value (gpiopin_create 17) GPIOPIN_OUT True =
      (w', gpiopin_create 17, False,
       Some ''Can't open /sys/class/gpio/gpio17/value for writing: No such file or directory'') \<and>
      fds w' = fds world_no_value"
    using gpiopin_init_outcomes [OF c(1), of world_no_value GPIOPIN_OUT True]
    by (auto simp: world_no_value_def world_ok_def cant_open_def c(2) gpio_path_17_value)
  show ?thesis using a b c(1) by blast
qed

text \<open>Claim C7 as first stated fails: the \<^verbatim>\<open>export\<close> file opens, the kernel rejects
  the line number written to it (the line is exported already), and \<open>gpiopin_init\<close>
  still succeeds, since the results of \<^verbatim>\<open>fprintf\<close> and \<^verbatim>\<open>fclose\<close> are not looked
  at.\<close>

theorem gpiopin_init_export_rejected:
  "fopen_w world_export_busy ''/sys/class/gpio/export'' = None \<and>
   stream_flush world_export_busy ''/sys/class/gpio/export'' (pin_text 17)
     = Some ''Device or resource busy'' \<and>
   snd (gpiopin_init world_export_busy (gpiopin_create 17) GPIOPIN_OUT True) =
     (\<lparr>pin = 17, value_fd = 3\<rparr>, True, None)"
proof -
  have n: "fopen_w world_export_busy ''/sys/class/gpio/export'' = None"
    by (simp add: world_export_busy_def world_ok_def)
  have o: "sys_open world_export_busy (gpio_path (pin (gpiopin_create 17)) ''value'')
             (if GPIOPIN_OUT = GPIOPIN_OUT then O_RDWR else O_RDONLY_NONBLOCK) = Inr 3"
    by (simp add: world_export_busy_def world_ok_def gpiopin_create_def gpio_path_17_value)
  have "snd (gpiopin_init world_export_busy (gpiopin_create 17) GPIOPIN_OUT True) =
     (\<lparr>pin = 17, value_fd = 3\<rparr>, True, None)"
    using gpiopin_init_succeeds [OF n o, of True] by (auto simp: gpiopin_create_def)
  then show ?thesis using n by (simp add: world_export_busy_def)
qed

section \<open>Initializing the sensor\<close>

lemma hcsr04_init_echo_fails:
  assumes "gpiopin_init w (gpiopin_echo self) GPIOPIN_IN error = (w1, echo1, False, msg)"
  shows "hcsr04_init w self error =
           Inr (w1, self\<lparr>avg := 0, good_count := 0, gpiopin_echo := echo1\<rparr>, False, msg)"
  using assms by (simp add: hcsr04_init_def Let_def)

lemma hcsr04_init_both_open:
  assumes "gpiopin_init w (gpiopin_echo self) GPIOPIN_IN error = (w1, echo1, True, msg)"
    and "gpiopin_init w1 (gpiopin_sound self) GPIOPIN_OUT False = (w2, sound1, True, msg2)"
  shows "hcsr04_init w self error =
           Inr (w2\<lparr>threads := Suc (threads w2),
                    calls := calls w2 @ [Write (value_fd sound1) CHR ''0'', Pthread_create]\<rparr>,
                self\<lparr>avg := 0, good_count := 0, gpiopin_echo := echo1,
                     gpiopin_sound := sound1, pthread := Suc (threads w2)\<rparr>, True, None)"
proof -
  have "0 \<le> value_fd sound1" using gpiopin_init_frame [OF assms(2)] by simp
  then show ?thesis using assms
    by (simp add: hcsr04_init_def Let_def gpiopin_set_def and_then_def LOW_def c_write_def
        c_pthread_create_def)
qed

text \<open>Where the sound line was closed and does not initialize, the assertion of
  \<open>gpiopin_set\<close> fails and \<open>hcsr04_init\<close> does not return.\<close>

lemma hcsr04_init_sound_closed:
  assumes "gpiopin_init w (gpiopin_echo self) GPIOPIN_IN error = (w1, echo1, True, msg)"
    and "gpiopin_init w1 (gpiopin_sound self) GPIOPIN_OUT False = (w2, sound1, False, msg2)"
    and "value_fd (gpiopin_sound self) = - 1"
  shows "hcsr04_init w self error = Inl (Assert_failed ''self->value_fd >= 0'')"
proof -
  have "value_fd sound1 = - 1" using gpiopin_init_frame [OF assms(2)] assms(3) by simp
  then show ?thesis using assms
    by (simp add: hcsr04_init_def Let_def gpiopin_set_def and_then_def)
qed


lemma world_ok_echo_init:
  "\<exists>w1. gpiopin_init world_ok (gpiopin_create 27) GPIOPIN_IN e =
           (w1, \<lparr>pin = 27, value_fd = 4\<rparr>, True, None)
     \<and> sys_open w1 = sys_open world_ok \<and> fopen_w w1 = fopen_w world_ok"
proof -
  have n: "fopen_w world_ok ''/sys/class/gpio/export'' = None"
    by (simp add: world_ok_def)
  have o: "sys_open world_ok (gpio_path (pin (gpiopin_create 27)) ''value'')
             (if GPIOPIN_IN = GPIOPIN_OUT then O_RDWR else O_RDONLY_NONBLOCK) = Inr 4"
    by (simp add: world_ok_def gpiopin_create_def gpio_path_27_value)
  show ?thesis using gpiopin_init_succeeds [OF n o, of e] by (auto simp: gpiopin_create_def)
qed

lemma world_ok_sound_init:
  assumes "sys_open w1 = sys_open world_ok" "fopen_w w1 = fopen_w world_ok"
  shows "\<exists>w2. gpiopin_init w1 (gpiopin_create 17) GPIOPIN_OUT e =
           (w2, \<lparr>pin = 17, value_fd = 3\<rparr>, True, None)
     \<and> sys_open w2 = sys_open world_ok"
proof -
  have n: "fopen_w w1 ''/sys/class/gpio/export'' = None"
    by (simp add: assms world_ok_def)
  have o: "sys_open w1 (gpio_path (pin (gpiopin_create 17)) ''value'')
             (if GPIOPIN_OUT = GPIOPIN_OUT then O_RDWR else O_RDONLY_NONBLOCK) = Inr 3"
    by (simp add: assms world_ok_def gpiopin_create_def gpio_path_17_value)
  show ?thesis using gpiopin_init_succeeds [OF n o, of e] assms by (auto simp: gpiopin_create_def)
qed


text \<open>
  The two paths of \<open>hcsr04_init\<close> that return. The echo line is initialized first, as
  an input, with the caller's place for the message. If that fails, the call returns
  failure with the echo line's message (there is one whenever the caller gave a place
  for it), the sound line is not touched and no thread is started. If the echo line
  initializes, the sound line is initialized next, as an output, in the system that the
  echo line's initialization left, with no place for a message; when it initializes
  too, the sound line is driven low (the character 0 is written to its descriptor), the
  thread of the loop is started and the call returns success with no message.
\<close>

theorem hcsr04_init_lines:
  assumes "gpiopin_init w (gpiopin_echo self) GPIOPIN_IN error = (w1, echo1, ok, msg)"
    and "gpiopin_init w1 (gpiopin_sound self) GPIOPIN_OUT False = (w2, sound1, ok2, msg2)"
  shows "(\<not> ok \<longrightarrow>
            hcsr04_init w self error =
              Inr (w1, self\<lparr>avg := 0, good_count := 0, gpiopin_echo := echo1\<rparr>, False, msg) \<and>
            (error \<longrightarrow> msg \<noteq> None) \<and> threads w1 = threads w) \<and>
         (ok \<and> ok2 \<longrightarrow>
            hcsr04_init w self error =
              Inr (w2\<lparr>threads := Suc (threads w),
                       calls := calls w2 @ [Write (value_fd sound1) CHR ''0'', Pthread_create]\<rparr>,
                   self\<lparr>avg := 0, good_count := 0, gpiopin_echo := echo1,
                        gpiopin_sound := sound1, pthread := Suc (threads w)\<rparr>, True, None))"
proof -
  have t: "threads w1 = threads w" "threads w2 = threads w1"
    using gpiopin_init_frame [OF assms(1)] gpiopin_init_frame [OF assms(2)] by simp_all
  have m: "\<not> ok \<Longrightarrow> error \<Longrightarrow> msg \<noteq> None"
    using gpiopin_init_frame [OF assms(1)] by simp
  show ?thesis
  proof (cases ok)
    case False
    then show ?thesis using hcsr04_init_echo_fails [of w self error w1 echo1 msg] assms(1) t m
      by simp
  next
    case True
    show ?thesis
    proof (cases ok2)
      case False
      then show ?thesis using True by simp
    next
      case ok2: True
      show ?thesis
        using hcsr04_init_both_open [of w self error w1 echo1 msg w2 sound1 msg2] assms True ok2 t
        by simp
    qed
  qed
qed

text \<open>Both paths on lines 17 and 27: where every call succeeds, and where the
  \<^verbatim>\<open>export\<close> file is not writable.\<close>

theorem hcsr04_init_lines_witness:
  "(\<exists>w1 w2.
      gpiopin_init world_ok (gpiopin_echo (hcsr04_create 17 27 240 (1 / 2))) GPIOPIN_IN True =
        (w1, \<lparr>pin = 27, value_fd = 4\<rparr>, True, None) \<and>
      gpiopin_init w1 (gpiopin_sound (hcsr04_create 17 27 240 (1 / 2))) GPIOPIN_OUT False =
        (w2, \<lparr>pin = 17, value_fd = 3\<rparr>, True, None) \<and>
      hcsr04_init world_ok (hcsr04_create 17 27 240 (1 / 2)) True =
        Inr (w2\<lparr>threads := Suc (threads world_ok),
                 calls := calls w2 @ [Write 3 CHR ''0'', Pthread_create]\<rparr>,
             (hcsr04_create 17 27 240 (1 / 2))
               \<lparr>avg := 0, good_count := 0, gpiopin_echo := \<lparr>pin = 27, value_fd = 4\<rparr>,
                gpiopin_sound := \<lparr>pin = 17, value_fd = 3\<rparr>, pthread := Suc (threads world_ok)\<rparr>,
             True, None)) \<and>
   hcsr04_init world_export_denied (hcsr04_create 17 27 240 (1 / 2)) True =
     Inr (world_export_denied\<lparr>errno := ''Permission denied''\<rparr>,
          (hcsr04_create 17 27 240 (1 / 2))
            \<lparr>avg := 0, good_count := 0, gpiopin_echo := gpiopin_create 27\<rparr>, False,
          Some ''Can't open /sys/class/gpio/export for writing: Permission denied'')"
proof -
  let ?s = "hcsr04_create 17 27 240 (1 / 2)"
  have p: "gpiopin_echo ?s = gpiopin_create 27" "gpiopin_sound ?s = gpiopin_create 17"
    by (simp_all add: hcsr04_create_def)
  obtain w1 where e: "gpiopin_init world_ok (gpiopin_echo ?s) GPIOPIN_IN True =
                        (w1, \<lparr>pin = 27, value_fd = 4\<rparr>, True, None)"
    and f: "sys_open w1 = sys_open world_ok" "fopen_w w1 = fopen_w world_ok"
    using world_ok_echo_init [of True] p by auto
  obtain w2 where s: "gpiopin_init w1 (gpiopin_sound ?s) GPIOPIN_OUT False =
                        (w2, \<lparr>pin = 17, value_fd = 3\<rparr>, True, None)"
    using world_ok_sound_init [OF f, of False] p by auto
  have a: "hcsr04_init world_ok ?s True =
        Inr (w2\<lparr>threads := Suc (threads world_ok),
                 calls := calls w2 @ [Write 3 CHR ''0'', Pthread_create]\<rparr>,
             ?s\<lparr>avg := 0, good_count := 0, gpiopin_echo := \<lparr>pin = 27, value_fd = 4\<rparr>,
                gpiopin_sound := \<lparr>pin = 17, value_fd = 3\<rparr>, pthread := Suc (threads world_ok)\<rparr>,
             True, None)"
    using hcsr04_init_lines [OF e s] by simp
  have d: "gpiopin_init world_export_denied (gpiopin_echo ?s) GPIOPIN_IN True =
             (world_export_denied\<lparr>errno := ''Permission denied''\<rparr>, gpiopin_create 27, False,
              Some ''Can't open /sys/class/gpio/export for writing: Permission denied'')"
    unfolding p
    by (rule trans [OF gpiopin_init_export_fails [where e = "''Permission denied''"]])
      (simp_all add: world_export_denied_def cant_open_def)
  obtain w3 sound3 ok3 msg3 where
    d2: "gpiopin_init (world_export_denied\<lparr>errno := ''Permission denied''\<rparr>)
           (gpiopin_sound ?s) GPIOPIN_OUT False = (w3, sound3, ok3, msg3)"
    by (metis prod_cases4)
  have b: "hcsr04_init world_export_denied ?s True =
     Inr (world_export_denied\<lparr>errno := ''Permission denied''\<rparr>,
          ?s\<lparr>avg := 0, good_count := 0, gpiopin_echo := gpiopin_create 27\<rparr>, False,
          Some ''Can't open /sys/class/gpio/export for writing: Permission denied'')"
    using hcsr04_init_lines [OF d d2] by simp
  show ?thesis using e s a b by blast
qed

text \<open>
  Claim C8 fails on the code. The echo line (27) initializes and the value file of the
  sound line (17) cannot be opened. \<open>hcsr04_init\<close> passes no place for a message to the
  sound line's \<open>gpiopin_init\<close> and does not look at its result, as its comment says
  ("we'll assume that others initialize OK"), so the failure is meant to be passed
  over and the call to return success, as the claim has it. The next call,
  \<open>gpiopin_set\<close>, asserts \<^verbatim>\<open>self->value_fd >= 0\<close> on the line that did not open: the
  assertion fails and \<open>hcsr04_init\<close> does not return.
\<close>

theorem hcsr04_init_sound_failure:
  "fst (snd (snd (gpiopin_init world_sound_fails (gpiopin_create 27) GPIOPIN_IN True))) = True \<and>
   hcsr04_init world_sound_fails (hcsr04_create 17 27 240 (1 / 2)) True =
     Inl (Assert_failed ''self->value_fd >= 0'')"
proof -
  let ?s = "hcsr04_create 17 27 240 (1 / 2)"
  have p: "gpiopin_echo ?s = gpiopin_create 27" "gpiopin_sound ?s = gpiopin_create 17"
    by (simp_all add: hcsr04_create_def)
  have n: "fopen_w world_sound_fails ''/sys/class/gpio/export'' = None"
    by (simp add: world_sound_fails_def world_ok_def)
  have o: "sys_open world_sound_fails (gpio_path (pin (gpiopin_create 27)) ''value'')
             (if GPIOPIN_IN = GPIOPIN_OUT then O_RDWR else O_RDONLY_NONBLOCK) = Inr 4"
    by (simp add: world_sound_fails_def gpiopin_create_def gpio_path_27_value)
  obtain w1 where e: "gpiopin_init world_sound_fails (gpiopin_create 27) GPIOPIN_IN True =
                        (w1, (gpiopin_create 27)\<lparr>value_fd := 4\<rparr>, True, None)"
    and f: "sys_open w1 = sys_open world_sound_fails" "fopen_w w1 = fopen_w world_sound_fails"
    using gpiopin_init_succeeds [OF n o, of True] by auto
  have n1: "fopen_w w1 ''/sys/class/gpio/export'' = None"
    using n f by simp
  have o1: "sys_open w1 (gpio_path (pin (gpiopin_create 17)) ''value'')
             (if GPIOPIN_OUT = GPIOPIN_OUT then O_RDWR else O_RDONLY_NONBLOCK)
              = Inl ''Permission denied''"
    by (simp add: f world_sound_fails_def gpiopin_create_def gpio_path_17_value)
  obtain w2 where s: "gpiopin_init w1 (gpiopin_create 17) GPIOPIN_OUT False =
                        (w2, (gpiopin_create 17)\<lparr>value_fd := - 1\<rparr>, False, None)"
    using gpiopin_init_open_fails [OF n1 o1, of False] by auto
  have v: "value_fd (gpiopin_sound ?s) = - 1" by (simp add: p gpiopin_create_def)
  have "hcsr04_init world_sound_fails ?s True = Inl (Assert_failed ''self->value_fd >= 0'')"
    using hcsr04_init_sound_closed [of world_sound_fails ?s True, OF _ _ v] e s p by simp
  then show ?thesis using e by simp
qed

section \<open>One measurement\<close>

lemma hcsr04_read_one_value:
  assumes "hcsr04_read_one w self tv1 tv2 = Inr (w1, d)"
  shows "d = hcsr04_reading self (tv1, tv2)"
  using assms
  by (auto simp: hcsr04_read_one_def hcsr04_reading_def and_then_def Let_def
      split: sum.splits if_splits)

lemma gpiopin_set_trigger_returns:
  assumes "\<not> isl (sys_open w (gpio_path (pin p) ''edge'') O_WRONLY)"
  shows "\<exists>w'. gpiopin_set_trigger w p t = Inr w' \<and> sys_open w' = sys_open w"
proof -
  obtain fd where fd: "sys_open w (gpio_path (pin p) ''edge'') O_WRONLY = Inr fd"
    using assms by (cases "sys_open w (gpio_path (pin p) ''edge'') O_WRONLY") auto
  show ?thesis
    by (cases t)
      (auto simp: gpiopin_set_trigger_def c_open_def c_close_def gpiopin_write_to_file_def fd Let_def
        split: option.splits prod.splits)
qed

text \<open>With both lines open and the \<^verbatim>\<open>edge\<close> file of the echo line openable, no
  assertion fails: a measurement returns, and it returns \<open>hcsr04_reading\<close>.\<close>

lemma hcsr04_read_one_returns:
  assumes "hcsr04_lines_open w self"
  shows "\<exists>w1. hcsr04_read_one w self tv1 tv2 = Inr (w1, hcsr04_reading self (tv1, tv2))
              \<and> sys_open w1 = sys_open w"
proof -
  let ?s = "gpiopin_sound self" and ?e = "gpiopin_echo self"
  have s: "0 \<le> value_fd ?s" and e: "0 \<le> value_fd ?e"
    and o: "\<not> isl (sys_open w (gpio_path (pin ?e) ''edge'') O_WRONLY)"
    using assms by (auto simp: hcsr04_lines_open_def)
  define w2 where
    "w2 = c_write (c_usleep (c_write w (value_fd ?s) CHR ''1'') 100) (value_fd ?s) CHR ''0''"
  have w2: "sys_open w2 = sys_open w"
    by (simp add: w2_def c_write_def c_usleep_def)
  obtain w3 where w3: "gpiopin_set_trigger w2 ?e GPIOPIN_RISING = Inr w3" "sys_open w3 = sys_open w"
    using gpiopin_set_trigger_returns [of w2 ?e GPIOPIN_RISING] o w2 by auto
  define w4 where
    "w4 = c_read (c_poll (c_lseek w3 (value_fd ?e)) (value_fd ?e) 500) (value_fd ?e) 50"
  have w4: "sys_open w4 = sys_open w"
    by (simp add: w4_def c_read_def c_poll_def c_lseek_def w3)
  obtain w5 where w5: "gpiopin_set_trigger w4 ?e GPIOPIN_FALLING = Inr w5" "sys_open w5 = sys_open w"
    using gpiopin_set_trigger_returns [of w4 ?e GPIOPIN_FALLING] o w4 by auto
  define w6 where
    "w6 = c_read (c_poll (c_lseek w5 (value_fd ?e)) (value_fd ?e) 500) (value_fd ?e) 50"
  have w6: "sys_open w6 = sys_open w"
    by (simp add: w6_def c_read_def c_poll_def c_lseek_def w5)
  have "hcsr04_read_one w self tv1 tv2 = Inr (w6, hcsr04_reading self (tv1, tv2))"
    using s e w3(1) w5(1)
    by (simp add: hcsr04_read_one_def hcsr04_reading_def and_then_def gpiopin_set_def
        gpiopin_wait_for_trigger_def HIGH_def LOW_def Let_def w2_def [symmetric]
        w4_def [symmetric] w6_def [symmetric])
  then show ?thesis using w6 by blast
qed

text \<open>While the elapsed time fits an \<^verbatim>\<open>int\<close>, the reading is the sentinel beyond
  \<open>max_time\<close> and the elapsed time times \<open>USEC_TO_METRES\<close> up to it.\<close>

lemma hcsr04_reading_in_range:
  fixes self :: HCSR04 and c :: "timeval \<times> timeval"
  defines "elapsed \<equiv> sint (get_system_time_usec (snd c) - get_system_time_usec (fst c))"
  assumes "- 2147483648 \<le> elapsed" and "elapsed \<le> 2147483647"
  shows "hcsr04_reading self c =
           (if sint (max_time self) < elapsed then - 1 else USEC_TO_METRES * real_of_int elapsed)"
proof -
  let ?e = "get_system_time_usec (snd c) - get_system_time_usec (fst c)"
  have "sint (scast ?e :: c_int) = signed_take_bit 31 (sint ?e)"
    by (simp only: scast_eq sint_sbintrunc') simp
  also have "\<dots> = sint ?e"
    using assms(2,3) unfolding elapsed_def
    by (intro signed_take_bit_int_eq_self) simp_all
  finally have "sint (scast ?e :: c_int) = sint ?e" .
  then show ?thesis
    by (simp add: hcsr04_reading_def Let_def word_sless_alt elapsed_def)
qed

lemma hcsr04_read_one_within_int:
  fixes self :: HCSR04
  defines "elapsed \<equiv> \<lambda>tv1 tv2. sint (get_system_time_usec tv2 - get_system_time_usec tv1)"
  assumes "hcsr04_read_one w self tv1 tv2 = Inr (w1, d)"
  shows "(sint (max_time self) < elapsed tv1 tv2 \<and> elapsed tv1 tv2 \<le> 2147483647 \<longrightarrow> d = - 1) \<and>
         (0 \<le> elapsed tv1 tv2 \<and> elapsed tv1 tv2 \<le> sint (max_time self) \<longrightarrow>
            d = USEC_TO_METRES * real_of_int (elapsed tv1 tv2))"
proof -
  have m: "- 2147483648 \<le> sint (max_time self)" "sint (max_time self) \<le> 2147483647"
    using sint_ge [of "max_time self"] sint_lt [of "max_time self"] by simp_all
  have d: "d = hcsr04_reading self (tv1, tv2)"
    by (rule hcsr04_read_one_value [OF assms(2)])
  show ?thesis
  proof (intro conjI impI)
    assume a: "sint (max_time self) < elapsed tv1 tv2 \<and> elapsed tv1 tv2 \<le> 2147483647"
    then show "d = - 1"
      using hcsr04_reading_in_range [of "(tv1, tv2)" self] m d
      by (simp add: elapsed_def)
  next
    assume a: "0 \<le> elapsed tv1 tv2 \<and> elapsed tv1 tv2 \<le> sint (max_time self)"
    then show "d = USEC_TO_METRES * real_of_int (elapsed tv1 tv2)"
      using hcsr04_reading_in_range [of "(tv1, tv2)" self] m d
      by (simp add: elapsed_def)
  qed
qed

text \<open>
  Claim C1 fails on the code where \<^verbatim>\<open>long\<close> is wider than \<^verbatim>\<open>int\<close>. The clock moves on
  by 2400 seconds between the two readings (the process was stopped, or the clock was
  set): the elapsed time, 2400000000 microseconds, is beyond \<open>max_time\<close> = 23323, yet
  \<^verbatim>\<open>(int) (end - start)\<close> is negative, the test \<^verbatim>\<open>diff > self->max_time\<close> fails, and
  \<open>hcsr04_read_one\<close> returns 411600 metres where the claim has the sentinel.
\<close>

theorem hcsr04_read_one_clock_step:
  "sint (get_system_time_usec (clock_at 1600002400 0) - get_system_time_usec (clock_at 1600000000 0))
     = 2400000000 \<and>
   sint (max_time sensor_running) = 23323 \<and>
   map_sum id snd (hcsr04_read_one world_ok sensor_running
      (clock_at 1600000000 0) (clock_at 1600002400 0)) = Inr 411600"
proof -
  let ?a = "clock_at 1600000000 0" and ?b = "clock_at 1600002400 0"
  have e: "get_system_time_usec ?b - get_system_time_usec ?a = 2400000000"
    by (simp add: clock_at_def get_system_time_usec_def)
  have r: "hcsr04_reading sensor_running (?a, ?b) = 411600"
    by (simp add: hcsr04_reading_def e sensor_running_max_time USEC_TO_METRES_def word_sless_alt)
  obtain w1 where "hcsr04_read_one world_ok sensor_running ?a ?b = Inr (w1, 411600)"
    using hcsr04_read_one_returns [OF sensor_running_open, of ?a ?b] r by auto
  then show ?thesis using e by (simp add: sensor_running_max_time)
qed

section \<open>The loop\<close>

lemma hcsr04_loop_body_step:
  assumes "hcsr04_read_one w self tv1 tv2 = Inr (w1, d)"
  shows "hcsr04_loop_body w self (tv1, tv2) =
           Inr (c_usleep w1 (cycle_usec self),
                if 0 < d
                then self\<lparr>avg := d * (1 - smoothing self) + avg self * smoothing self,
                          good_count := (if HCSR04_VALID_SAMPLES <s good_count self + 1
                                         then HCSR04_VALID_SAMPLES else good_count self + 1)\<rparr>
                else self\<lparr>good_count := (if good_count self - 1 <s 0 then 0
                                           else good_count self - 1)\<rparr>)"
  using assms by (simp add: hcsr04_loop_body_def and_then_def Let_def)

lemma hcsr04_loop_body_Inr:
  assumes "hcsr04_loop_body w self c = Inr (w1, self1)"
  shows "self1 =
           (if 0 < hcsr04_reading self c
            then self\<lparr>avg := hcsr04_reading self c * (1 - smoothing self) + avg self * smoothing self,
                      good_count := (if HCSR04_VALID_SAMPLES <s good_count self + 1
                                     then HCSR04_VALID_SAMPLES else good_count self + 1)\<rparr>
            else self\<lparr>good_count := (if good_count self - 1 <s 0 then 0
                                       else good_count self - 1)\<rparr>)"
proof -
  obtain w0 d where r: "hcsr04_read_one w self (fst c) (snd c) = Inr (w0, d)"
    using assms by (auto simp: hcsr04_loop_body_def and_then_def split: sum.splits)
  have d: "d = hcsr04_reading self c"
    using hcsr04_read_one_value [OF r] by simp
  have "hcsr04_loop_body w self (fst c, snd c) = Inr (w1, self1)"
    using assms by simp
  then show ?thesis
    unfolding hcsr04_loop_body_step [OF r] d by (simp split: if_splits)
qed

lemma hcsr04_loop_body_frame:
  assumes "hcsr04_loop_body w self c = Inr (w1, self1)"
  shows "stop self1 = stop self" "max_time self1 = max_time self"
    "hcsr04_reading self1 = hcsr04_reading self"
  using hcsr04_loop_body_Inr [OF assms]
  by (auto simp: hcsr04_reading_def fun_eq_iff split: if_splits)

lemma hcsr04_loop_body_good_count:
  assumes "hcsr04_loop_body w self c = Inr (w1, self1)"
    and "0 \<le> sint (good_count self)" and "sint (good_count self) \<le> 4"
  shows "sint (good_count self1) =
           (if 0 < hcsr04_reading self c then min 4 (sint (good_count self) + 1)
            else max 0 (sint (good_count self) - 1))"
proof (cases "0 < hcsr04_reading self c")
  case True
  then have "good_count self1 = (if HCSR04_VALID_SAMPLES <s good_count self + 1
                                     then HCSR04_VALID_SAMPLES else good_count self + 1)"
    using hcsr04_loop_body_Inr [OF assms(1)] by simp
  then show ?thesis using True assms(3) good_count_up [of "good_count self"] by simp
next
  case False
  then have "good_count self1 = (if good_count self - 1 <s 0 then 0 else good_count self - 1)"
    using hcsr04_loop_body_Inr [OF assms(1)] by simp
  then show ?thesis using False assms(2) good_count_down [of "good_count self"] by simp
qed

lemma hcsr04_loop_body_returns:
  assumes "hcsr04_lines_open w self"
  shows "\<exists>w1 self1. hcsr04_loop_body w self c = Inr (w1, self1) \<and> hcsr04_lines_open w1 self1"
proof -
  obtain w0 where r: "hcsr04_read_one w self (fst c) (snd c) = Inr (w0, hcsr04_reading self c)"
    and o: "sys_open w0 = sys_open w"
    using hcsr04_read_one_returns [OF assms, of "fst c" "snd c"] by auto
  have "hcsr04_loop_body w self (fst c, snd c) = Inr (c_usleep w0 (cycle_usec self),
                if 0 < hcsr04_reading self c
                then self\<lparr>avg := hcsr04_reading self c * (1 - smoothing self) + avg self * smoothing self,
                          good_count := (if HCSR04_VALID_SAMPLES <s good_count self + 1
                                         then HCSR04_VALID_SAMPLES else good_count self + 1)\<rparr>
                else self\<lparr>good_count := (if good_count self - 1 <s 0 then 0
                                           else good_count self - 1)\<rparr>)"
    by (rule hcsr04_loop_body_step [OF r])
  then show ?thesis using assms o
    by (auto simp: hcsr04_lines_open_def c_usleep_def)
qed

text \<open>The loop returns for every list of clock readings once the lines are open.\<close>

lemma hcsr04_loop_returns:
  assumes "hcsr04_lines_open w self"
  shows "\<exists>w1 self1. hcsr04_loop w self cs = Inr (w1, self1)"
  using assms
proof (induction cs arbitrary: w self)
  case Nil
  show ?case by simp
next
  case (Cons c cs)
  obtain w0 self0 where b: "hcsr04_loop_body w self c = Inr (w0, self0)"
    and o: "hcsr04_lines_open w0 self0"
    using hcsr04_loop_body_returns [OF Cons.prems] by blast
  show ?case using Cons.IH [OF o] b by (simp add: and_then_def)
qed

text \<open>One more turn at the end of a run.\<close>

lemma hcsr04_loop_snoc:
  "hcsr04_loop w self (cs @ [c]) =
     and_then (hcsr04_loop w self cs) (\<lambda>(w1, self1).
       if stop self1 then Inr (w1, self1) else hcsr04_loop_body w1 self1 c)"
proof (induction cs arbitrary: w self)
  case Nil
  show ?case
    by (cases "hcsr04_loop_body w self c") (auto simp: and_then_def)
next
  case (Cons a cs)
  show ?case
  proof (cases "stop self")
    case True
    then show ?thesis by (simp add: and_then_def)
  next
    case False
    show ?thesis
    proof (cases "hcsr04_loop_body w self a")
      case (Inl e)
      then show ?thesis using False by (simp add: and_then_def)
    next
      case (Inr p)
      obtain w1 self1 where p: "p = (w1, self1)" by (cases p)
      show ?thesis using False Inr p Cons.IH [of w1 self1] by (simp add: and_then_def)
    qed
  qed
qed

lemma hcsr04_loop_frame:
  assumes "hcsr04_loop w self cs = Inr (w1, self1)"
  shows "stop self1 = stop self \<and> hcsr04_reading self1 = hcsr04_reading self"
  using assms
proof (induction cs arbitrary: w self)
  case Nil
  then show ?case by simp
next
  case (Cons a cs)
  show ?case
  proof (cases "stop self")
    case True
    then show ?thesis using Cons.prems by simp
  next
    case False
    then obtain w0 self0 where b: "hcsr04_loop_body w self a = Inr (w0, self0)"
      and l: "hcsr04_loop w0 self0 cs = Inr (w1, self1)"
      using Cons.prems by (auto simp: and_then_def split: sum.splits)
    show ?thesis using Cons.IH [OF l] hcsr04_loop_body_frame [OF b] by simp
  qed
qed

lemma hcsr04_loop_range:
  assumes "hcsr04_loop w self cs = Inr (w1, self1)"
    and "0 \<le> sint (good_count self)" and "sint (good_count self) \<le> 4"
  shows "0 \<le> sint (good_count self1) \<and> sint (good_count self1) \<le> 4"
  using assms
proof (induction cs arbitrary: w self)
  case Nil
  then show ?case by simp
next
  case (Cons a cs)
  show ?case
  proof (cases "stop self")
    case True
    then show ?thesis using Cons.prems by simp
  next
    case False
    then obtain w0 self0 where b: "hcsr04_loop_body w self a = Inr (w0, self0)"
      and l: "hcsr04_loop w0 self0 cs = Inr (w1, self1)"
      using Cons.prems by (auto simp: and_then_def split: sum.splits)
    have "0 \<le> sint (good_count self0) \<and> sint (good_count self0) \<le> 4"
      using hcsr04_loop_body_good_count [OF b Cons.prems(2,3)] Cons.prems(2,3)
      by (simp split: if_splits)
    then show ?thesis using Cons.IH [OF l] by simp
  qed
qed

lemma hcsr04_loop_all_valid:
  assumes "hcsr04_loop w self cs = Inr (w1, self1)"
    and "\<not> stop self"
    and "0 \<le> sint (good_count self)" and "sint (good_count self) \<le> 4"
    and "\<forall>c\<in>set cs. 0 < hcsr04_reading self c"
  shows "sint (good_count self1) = min 4 (sint (good_count self) + int (length cs))"
  using assms
proof (induction cs arbitrary: w self)
  case Nil
  then show ?case by simp
next
  case (Cons a cs)
  obtain w0 self0 where b: "hcsr04_loop_body w self a = Inr (w0, self0)"
    and l: "hcsr04_loop w0 self0 cs = Inr (w1, self1)"
    using Cons.prems(1,2) by (auto simp: and_then_def split: sum.splits)
  have g0: "sint (good_count self0) = min 4 (sint (good_count self) + 1)"
    using hcsr04_loop_body_good_count [OF b Cons.prems(3,4)] Cons.prems(5) by simp
  have f: "stop self0 = stop self" "hcsr04_reading self0 = hcsr04_reading self"
    using hcsr04_loop_body_frame [OF b] by simp_all
  have "sint (good_count self1) = min 4 (sint (good_count self0) + int (length cs))"
    using Cons.IH [OF l] f g0 Cons.prems(2,3,5) by simp
  then show ?case using g0 by simp
qed


lemma hcsr04_reading_good_count:
  "hcsr04_reading (self\<lparr>good_count := g\<rparr>) = hcsr04_reading self"
  by (simp add: hcsr04_reading_def fun_eq_iff)

text \<open>A turn whose reading is not above 0, on open lines.\<close>

lemma hcsr04_loop_body_rejected:
  assumes "hcsr04_lines_open w self" and "\<not> 0 < hcsr04_reading self c"
  shows "\<exists>w1. hcsr04_loop_body w self c =
                Inr (w1, self\<lparr>good_count := (if good_count self - 1 <s 0 then 0
                                                else good_count self - 1)\<rparr>) \<and>
              hcsr04_lines_open w1
                (self\<lparr>good_count := (if good_count self - 1 <s 0 then 0
                                        else good_count self - 1)\<rparr>)"
proof -
  obtain w1 self1 where b: "hcsr04_loop_body w self c = Inr (w1, self1)"
    and o: "hcsr04_lines_open w1 self1"
    using hcsr04_loop_body_returns [OF assms(1)] by blast
  have "self1 = self\<lparr>good_count := (if good_count self - 1 <s 0 then 0
                                        else good_count self - 1)\<rparr>"
    using hcsr04_loop_body_Inr [OF b] assms(2) by simp
  then show ?thesis using b o by blast
qed

text \<open>
  Claim C2, as amended. Start the loop with a counter in the interval from 0 to
  \<open>HCSR04_VALID_SAMPLES\<close> (\<open>hcsr04_create\<close> and \<open>hcsr04_init\<close> set it to 0). For every
  list \<open>cs\<close> of turns and every further turn \<open>c\<close>: the counter after \<open>cs\<close> and the
  counter after \<open>cs\<close> and \<open>c\<close> are both in that interval, they differ by at most 1, and
  the turn \<open>c\<close> adds 1 up to \<open>HCSR04_VALID_SAMPLES\<close> when its reading is above 0 and
  takes 1 away down to 0 when it is not, a reading of exactly 0 included (it changes
  nothing when the loop has been stopped).
\<close>

theorem hcsr04_loop_good_count_bounds:
  assumes "0 \<le> sint (good_count self)"
    and "sint (good_count self) \<le> sint HCSR04_VALID_SAMPLES"
    and "hcsr04_loop w self cs = Inr (w1, self1)"
    and "hcsr04_loop w self (cs @ [c]) = Inr (w2, self2)"
  shows "0 \<le> sint (good_count self1) \<and> sint (good_count self1) \<le> sint HCSR04_VALID_SAMPLES \<and>
         0 \<le> sint (good_count self2) \<and> sint (good_count self2) \<le> sint HCSR04_VALID_SAMPLES \<and>
         \<bar>sint (good_count self2) - sint (good_count self1)\<bar> \<le> 1 \<and>
         sint (good_count self2) =
           (if stop self then sint (good_count self1)
            else if 0 < hcsr04_reading self c
                 then min (sint HCSR04_VALID_SAMPLES) (sint (good_count self1) + 1)
                 else max 0 (sint (good_count self1) - 1))"
proof -
  have r1: "0 \<le> sint (good_count self1) \<and> sint (good_count self1) \<le> 4"
    using hcsr04_loop_range [OF assms(3)] assms(1,2) by (simp add: sint_VALID_SAMPLES)
  have f: "stop self1 = stop self" "hcsr04_reading self1 = hcsr04_reading self"
    using hcsr04_loop_frame [OF assms(3)] by simp_all
  have s: "(if stop self then Inr (w1, self1) else hcsr04_loop_body w1 self1 c) = Inr (w2, self2)"
    using assms(3,4) f by (simp add: hcsr04_loop_snoc and_then_def)
  show ?thesis
  proof (cases "stop self")
    case True
    then have "self2 = self1" using s by simp
    then show ?thesis using True r1 by (simp add: sint_VALID_SAMPLES)
  next
    case False
    then have b: "hcsr04_loop_body w1 self1 c = Inr (w2, self2)" using s by simp
    have "sint (good_count self2) =
           (if 0 < hcsr04_reading self c then min 4 (sint (good_count self1) + 1)
            else max 0 (sint (good_count self1) - 1))"
      using hcsr04_loop_body_good_count [OF b] r1 f by simp
    then show ?thesis using False r1 by (auto simp: sint_VALID_SAMPLES)
  qed
qed

text \<open>The theorem on a sensor with two good samples counted: an echo after 5831
  microseconds takes the counter to 3, a timeout after it back to 2.\<close>

theorem hcsr04_loop_good_count_bounds_witness:
  "0 \<le> sint (good_count sensor_running) \<and>
   sint (good_count sensor_running) \<le> sint HCSR04_VALID_SAMPLES \<and>
   (\<exists>w1 self1 w2 self2.
      hcsr04_loop world_ok sensor_running
        [(clock_at 1600000000 0, clock_at 1600000000 5831)] = Inr (w1, self1) \<and>
      hcsr04_loop world_ok sensor_running
        ([(clock_at 1600000000 0, clock_at 1600000000 5831)] @
         [(clock_at 1600000000 0, clock_at 1600000000 500000)]) = Inr (w2, self2) \<and>
      sint (good_count self1) = 3 \<and> sint (good_count self2) = 2)"
proof -
  let ?a = "(clock_at 1600000000 0, clock_at 1600000000 5831)"
  let ?b = "(clock_at 1600000000 0, clock_at 1600000000 500000)"
  have g: "0 \<le> sint (good_count sensor_running)"
    "sint (good_count sensor_running) \<le> sint HCSR04_VALID_SAMPLES"
    by (simp_all add: sensor_running_def HCSR04_VALID_SAMPLES_def)
  obtain w1 self1 where l1: "hcsr04_loop world_ok sensor_running [?a] = Inr (w1, self1)"
    using hcsr04_loop_returns [OF sensor_running_open] by blast
  obtain w2 self2 where l2: "hcsr04_loop world_ok sensor_running ([?a] @ [?b]) = Inr (w2, self2)"
    using hcsr04_loop_returns [OF sensor_running_open] by blast
  have n: "\<not> stop sensor_running" "sint (good_count sensor_running) = 2"
    by (simp_all add: sensor_running_def hcsr04_create_def)
  have "sint (good_count self1) = 3"
    using hcsr04_loop_good_count_bounds
            [OF g, of world_ok "[]" world_ok sensor_running ?a w1 self1] l1 n
    by (simp add: reading_5831 sint_VALID_SAMPLES)
  moreover have "sint (good_count self2) = 2"
    using hcsr04_loop_good_count_bounds [OF g l1 l2] n \<open>sint (good_count self1) = 3\<close>
    by (simp add: reading_timeout)
  ultimately show ?thesis using g l1 l2 by blast
qed

text \<open>Claim C2 as first stated fails in its clause on valid samples: a reading of
  exactly 0 is not negative, a valid sample in the claim's sense, and the loop, whose
  test is \<^verbatim>\<open>d > 0\<close>, takes the counter from 2 down to 1 where the claim has 3.\<close>

theorem hcsr04_loop_zero_reading_counts_down:
  "hcsr04_reading sensor_running (clock_at 1600000000 0, clock_at 1600000000 0) = 0 \<and>
   sint (good_count sensor_running) = 2 \<and>
   map_sum id snd (hcsr04_loop world_ok sensor_running
      [(clock_at 1600000000 0, clock_at 1600000000 0)]) = Inr (sensor_running\<lparr>good_count := 1\<rparr>)"
proof -
  let ?c = "(clock_at 1600000000 0, clock_at 1600000000 0)"
  have z: "\<not> 0 < hcsr04_reading sensor_running ?c" by (simp add: reading_zero)
  have g: "good_count sensor_running = 2" "\<not> stop sensor_running"
    by (simp_all add: sensor_running_def hcsr04_create_def)
  obtain w1 where "hcsr04_loop_body world_ok sensor_running ?c =
                     Inr (w1, sensor_running\<lparr>good_count := 1\<rparr>)"
    using hcsr04_loop_body_rejected [OF sensor_running_open z] g
    by (auto simp: word_sless_alt)
  then show ?thesis using g by (simp add: reading_zero and_then_def)
qed

text \<open>
  Claim C3, as amended. For every turn of the loop in which \<open>hcsr04_read_one\<close> returns a
  distance \<open>d\<close> above 0, the loop sets the average to
  \<open>d * (1 - smoothing) + avg * smoothing\<close> and adds 1 to the counter, which stops at
  \<open>HCSR04_VALID_SAMPLES\<close>; nothing else of the sensor changes, and the turn ends with
  the sleep of \<open>cycle_usec\<close>.
\<close>

theorem hcsr04_loop_positive_sample:
  assumes "hcsr04_read_one w self tv1 tv2 = Inr (w1, d)" and "0 < d"
  shows "hcsr04_loop_body w self (tv1, tv2) =
           Inr (c_usleep w1 (cycle_usec self),
                self\<lparr>avg := d * (1 - smoothing self) + avg self * smoothing self,
                     good_count := (if HCSR04_VALID_SAMPLES <s good_count self + 1
                                    then HCSR04_VALID_SAMPLES else good_count self + 1)\<rparr>) \<and>
         (sint (good_count self) < 2147483647 \<longrightarrow>
            sint (if HCSR04_VALID_SAMPLES <s good_count self + 1
                  then HCSR04_VALID_SAMPLES else good_count self + 1) =
            min (sint HCSR04_VALID_SAMPLES) (sint (good_count self) + 1))"
  using hcsr04_loop_body_step [OF assms(1)] assms(2) good_count_up [of "good_count self"]
  by (simp add: sint_VALID_SAMPLES)

text \<open>The theorem for an echo after 5831 microseconds, a distance of 1.0000165 metres:
  the average goes from 1 to 1.00000825 and the counter from 2 to 3.\<close>

theorem hcsr04_loop_positive_sample_witness:
  "\<exists>w1. hcsr04_read_one world_ok sensor_running
          (clock_at 1600000000 0) (clock_at 1600000000 5831) = Inr (w1, 2000033 / 2000000) \<and>
        (0 :: real) < 2000033 / 2000000 \<and>
        hcsr04_loop_body world_ok sensor_running
          (clock_at 1600000000 0, clock_at 1600000000 5831) =
          Inr (c_usleep w1 240000, sensor_running\<lparr>avg := 4000033 / 4000000, good_count := 3\<rparr>)"
proof -
  let ?a = "clock_at 1600000000 0" and ?b = "clock_at 1600000000 5831"
  obtain w1 where r: "hcsr04_read_one world_ok sensor_running ?a ?b = Inr (w1, 2000033 / 2000000)"
    using hcsr04_read_one_returns [OF sensor_running_open, of ?a ?b] reading_5831 by auto
  have p: "(0 :: real) < 2000033 / 2000000" by simp
  have "hcsr04_loop_body world_ok sensor_running (?a, ?b) =
          Inr (c_usleep w1 240000, sensor_running\<lparr>avg := 4000033 / 4000000, good_count := 3\<rparr>)"
    using hcsr04_loop_positive_sample [OF r p]
    by (simp add: sensor_running_def hcsr04_create_def HCSR04_VALID_SAMPLES_def word_sless_alt)
  then show ?thesis using r p by blast
qed

text \<open>Claim C3 as first stated fails at a reading of exactly 0 (the two clock readings
  are equal): the test of the loop is \<^verbatim>\<open>d > 0\<close>, so the reading goes the way of a
  timeout. The average stays 1 and the counter goes from 2 down to 1, where the claim
  has an average of 0.5 and a counter of 3.\<close>

theorem hcsr04_loop_zero_reading_rejected:
  "map_sum id snd (hcsr04_read_one world_ok sensor_running
      (clock_at 1600000000 0) (clock_at 1600000000 0)) = Inr 0 \<and>
   good_count sensor_running = 2 \<and> avg sensor_running = 1 \<and>
   map_sum id snd (hcsr04_loop_body world_ok sensor_running
      (clock_at 1600000000 0, clock_at 1600000000 0)) = Inr (sensor_running\<lparr>good_count := 1\<rparr>)"
proof -
  let ?t = "clock_at 1600000000 0"
  obtain w1 where r: "hcsr04_read_one world_ok sensor_running ?t ?t = Inr (w1, 0)"
    using hcsr04_read_one_returns [OF sensor_running_open, of ?t ?t] reading_zero by auto
  have "hcsr04_loop_body world_ok sensor_running (?t, ?t) =
          Inr (c_usleep w1 (cycle_usec sensor_running), sensor_running\<lparr>good_count := 1\<rparr>)"
    unfolding hcsr04_loop_body_step [OF r]
    by (simp add: sensor_running_def hcsr04_create_def word_sless_alt)
  then show ?thesis using r by (simp add: sensor_running_def)
qed

text \<open>
  Claim C4, as amended. Let the counter be in its interval, below the threshold or at
  it, and the loop not stopped. After \<open>HCSR04_VALID_SAMPLES\<close> turns in a row with a
  reading above 0, \<open>hcsr04_is_distance_valid\<close> holds, with the counter exactly at the
  threshold;
  after one more turn, with a negative reading (a timeout), it does not hold. For every sensor,
  \<open>hcsr04_is_distance_valid\<close> is the test \<open>good_count >= HCSR04_VALID_SAMPLES\<close>.
\<close>

theorem hcsr04_valid_after_threshold:
  assumes "0 \<le> sint (good_count self)"
    and "sint (good_count self) \<le> sint HCSR04_VALID_SAMPLES"
    and "\<not> stop self"
    and "int (length cs) = sint HCSR04_VALID_SAMPLES"
    and "\<forall>c\<in>set cs. 0 < hcsr04_reading self c"
    and "hcsr04_reading self c' < 0"
    and "hcsr04_loop w self (cs @ [c']) = Inr (w2, self2)"
  shows "(\<exists>w1 self1. hcsr04_loop w self cs = Inr (w1, self1) \<and>
            hcsr04_is_distance_valid self1 \<and> good_count self1 = HCSR04_VALID_SAMPLES) \<and>
         \<not> hcsr04_is_distance_valid self2 \<and>
         (\<forall>s. hcsr04_is_distance_valid s \<longleftrightarrow> sint HCSR04_VALID_SAMPLES \<le> sint (good_count s))"
proof -
  obtain w1 self1 where l1: "hcsr04_loop w self cs = Inr (w1, self1)"
    and s: "(if stop self1 then Inr (w1, self1) else hcsr04_loop_body w1 self1 c') = Inr (w2, self2)"
    using assms(7) by (auto simp: hcsr04_loop_snoc and_then_def split: sum.splits)
  have f: "stop self1 = stop self" "hcsr04_reading self1 = hcsr04_reading self"
    using hcsr04_loop_frame [OF l1] by simp_all
  have g: "0 \<le> sint (good_count self)" "sint (good_count self) \<le> 4"
    using assms(1,2) by (simp_all add: sint_VALID_SAMPLES)
  have "sint (good_count self1) = min 4 (sint (good_count self) + int (length cs))"
    by (rule hcsr04_loop_all_valid [OF l1 assms(3) g assms(5)])
  then have g1: "sint (good_count self1) = 4"
    using assms(4) g by (simp add: sint_VALID_SAMPLES)
  have "(word_of_int (sint (good_count self1)) :: c_int) = word_of_int 4"
    using g1 by simp
  then have e1: "good_count self1 = HCSR04_VALID_SAMPLES"
    by (simp add: HCSR04_VALID_SAMPLES_def)
  have b: "hcsr04_loop_body w1 self1 c' = Inr (w2, self2)"
    using s f assms(3) by simp
  have "sint (good_count self2) = 3"
    using hcsr04_loop_body_good_count [OF b] g1 f assms(6) by simp
  then have "\<not> hcsr04_is_distance_valid self2"
    by (simp add: hcsr04_is_distance_valid_sint sint_VALID_SAMPLES)
  moreover have "hcsr04_is_distance_valid self1"
    using g1 by (simp add: hcsr04_is_distance_valid_sint sint_VALID_SAMPLES)
  ultimately show ?thesis using l1 e1 hcsr04_is_distance_valid_sint by blast
qed

text \<open>The theorem for four echoes after 5831 microseconds and one timeout.\<close>

theorem hcsr04_valid_after_threshold_witness:
  "\<exists>w1 self1 w2 self2.
     hcsr04_loop world_ok sensor_running
       (replicate 4 (clock_at 1600000000 0, clock_at 1600000000 5831)) = Inr (w1, self1) \<and>
     hcsr04_loop world_ok sensor_running
       (replicate 4 (clock_at 1600000000 0, clock_at 1600000000 5831) @
        [(clock_at 1600000000 0, clock_at 1600000000 500000)]) = Inr (w2, self2) \<and>
     hcsr04_is_distance_valid self1 \<and> \<not> hcsr04_is_distance_valid self2"
proof -
  let ?a = "(clock_at 1600000000 0, clock_at 1600000000 5831)"
  let ?b = "(clock_at 1600000000 0, clock_at 1600000000 500000)"
  have g: "0 \<le> sint (good_count sensor_running)"
    "sint (good_count sensor_running) \<le> sint HCSR04_VALID_SAMPLES"
    "\<not> stop sensor_running"
    by (simp_all add: sensor_running_def hcsr04_create_def HCSR04_VALID_SAMPLES_def)
  have n: "int (length (replicate 4 ?a)) = sint HCSR04_VALID_SAMPLES"
    by (simp add: sint_VALID_SAMPLES)
  have v: "\<forall>c\<in>set (replicate 4 ?a). 0 < hcsr04_reading sensor_running c"
    by (simp add: reading_5831)
  have i: "hcsr04_reading sensor_running ?b < 0"
    by (simp add: reading_timeout)
  obtain w2 self2 where
    l2: "hcsr04_loop world_ok sensor_running (replicate 4 ?a @ [?b]) = Inr (w2, self2)"
    using hcsr04_loop_returns [OF sensor_running_open] by blast
  show ?thesis
    using hcsr04_valid_after_threshold [OF g n v i l2] l2 by blast
qed

text \<open>Claim C4 as first stated fails for readings of exactly 0, which are not
  negative and so valid samples in the claim's sense: after four of them in a row the
  counter, 2 at the start, is 0 and \<open>hcsr04_is_distance_valid\<close> is false.\<close>

theorem hcsr04_zero_readings_never_valid:
  "hcsr04_reading sensor_running (clock_at 1600000000 0, clock_at 1600000000 0) = 0 \<and>
   sint (good_count sensor_running) = 2 \<and>
   map_sum id snd (hcsr04_loop world_ok sensor_running
      [(clock_at 1600000000 0, clock_at 1600000000 0),
       (clock_at 1600000001 0, clock_at 1600000001 0),
       (clock_at 1600000002 0, clock_at 1600000002 0),
       (clock_at 1600000003 0, clock_at 1600000003 0)]) = Inr (sensor_running\<lparr>good_count := 0\<rparr>) \<and>
   \<not> hcsr04_is_distance_valid (sensor_running\<lparr>good_count := 0\<rparr>)"
proof -
  let ?s1 = "sensor_running\<lparr>good_count := 1\<rparr>" and ?s0 = "sensor_running\<lparr>good_count := 0\<rparr>"
  have z: "\<not> 0 < hcsr04_reading sensor_running (clock_at t 0, clock_at t 0)" for t
    by (simp add: hcsr04_reading_def sensor_running_max_time clock_at_def
        get_system_time_usec_def USEC_TO_METRES_def word_sless_alt)
  have g: "good_count sensor_running = 2" "\<not> stop sensor_running"
    by (simp_all add: sensor_running_def hcsr04_create_def)
  obtain w1 where b1: "hcsr04_loop_body world_ok sensor_running
                         (clock_at 1600000000 0, clock_at 1600000000 0) = Inr (w1, ?s1)"
    and o1: "hcsr04_lines_open w1 ?s1"
    using hcsr04_loop_body_rejected [OF sensor_running_open z [of 1600000000]] g
    by (auto simp: word_sless_alt)
  obtain w2 where b2: "hcsr04_loop_body w1 ?s1
                         (clock_at 1600000001 0, clock_at 1600000001 0) = Inr (w2, ?s0)"
    and o2: "hcsr04_lines_open w2 ?s0"
    using hcsr04_loop_body_rejected [OF o1, of "(clock_at 1600000001 0, clock_at 1600000001 0)"]
      z [of 1600000001]
    by (auto simp: word_sless_alt hcsr04_reading_good_count)
  obtain w3 where b3: "hcsr04_loop_body w2 ?s0
                         (clock_at 1600000002 0, clock_at 1600000002 0) = Inr (w3, ?s0)"
    and o3: "hcsr04_lines_open w3 ?s0"
    using hcsr04_loop_body_rejected [OF o2, of "(clock_at 1600000002 0, clock_at 1600000002 0)"]
      z [of 1600000002]
    by (auto simp: word_sless_alt hcsr04_reading_good_count)
  obtain w4 where b4: "hcsr04_loop_body w3 ?s0
                         (clock_at 1600000003 0, clock_at 1600000003 0) = Inr (w4, ?s0)"
    using hcsr04_loop_body_rejected [OF o3, of "(clock_at 1600000003 0, clock_at 1600000003 0)"]
      z [of 1600000003]
    by (auto simp: word_sless_alt hcsr04_reading_good_count)
  have "\<not> hcsr04_is_distance_valid ?s0"
    by (simp add: hcsr04_is_distance_valid_sint sint_VALID_SAMPLES)
  then show ?thesis using b1 b2 b3 b4 g by (simp add: reading_zero and_then_def)
qed

text \<open>
  Claim C5. For every turn of the loop in which \<open>hcsr04_read_one\<close> returns a negative
  value (the sentinel of a timeout), the average is left as it was: the counter is the
  only field of the sensor that changes, and it goes down by 1, not below 0.
\<close>

theorem hcsr04_loop_invalid_sample:
  assumes "hcsr04_read_one w self tv1 tv2 = Inr (w1, d)" and "d < 0"
  shows "hcsr04_loop_body w self (tv1, tv2) =
           Inr (c_usleep w1 (cycle_usec self),
                self\<lparr>good_count := (if good_count self - 1 <s 0 then 0 else good_count self - 1)\<rparr>) \<and>
         avg (self\<lparr>good_count := (if good_count self - 1 <s 0 then 0 else good_count self - 1)\<rparr>)
           = avg self \<and>
         (- 2147483648 < sint (good_count self) \<longrightarrow>
            sint (if good_count self - 1 <s 0 then 0 else good_count self - 1) =
            max 0 (sint (good_count self) - 1))"
  using hcsr04_loop_body_step [OF assms(1)] assms(2) good_count_down [of "good_count self"]
  by simp

text \<open>The theorem for a timeout: the falling edge is seen half a second after the
  rising edge.\<close>

theorem hcsr04_loop_invalid_sample_witness:
  "\<exists>w1. hcsr04_read_one world_ok sensor_running
          (clock_at 1600000000 0) (clock_at 1600000000 500000) = Inr (w1, - 1) \<and>
        (- 1 :: real) < 0 \<and>
        hcsr04_loop_body world_ok sensor_running
          (clock_at 1600000000 0, clock_at 1600000000 500000) =
          Inr (c_usleep w1 240000, sensor_running\<lparr>good_count := 1\<rparr>) \<and>
        avg (sensor_running\<lparr>good_count := 1\<rparr>) = 1"
proof -
  let ?a = "clock_at 1600000000 0" and ?b = "clock_at 1600000000 500000"
  obtain w1 where r: "hcsr04_read_one world_ok sensor_running ?a ?b = Inr (w1, - 1)"
    using hcsr04_read_one_returns [OF sensor_running_open, of ?a ?b] reading_timeout by auto
  have p: "(- 1 :: real) < 0" by simp
  have "hcsr04_loop_body world_ok sensor_running (?a, ?b) =
          Inr (c_usleep w1 240000, sensor_running\<lparr>good_count := 1\<rparr>)"
    using hcsr04_loop_invalid_sample [OF r p]
    by (simp add: sensor_running_def hcsr04_create_def word_sless_alt)
  moreover have "avg (sensor_running\<lparr>good_count := 1\<rparr>) = 1"
    by (simp add: sensor_running_def)
  ultimately show ?thesis using r p by blast
qed

section \<open>Reading the estimate\<close>

text \<open>
  Claim C6. For every sensor, \<open>hcsr04_get_distance\<close> returns the average when
  \<open>hcsr04_is_distance_valid\<close> holds, that is when the counter has reached
  \<open>HCSR04_VALID_SAMPLES\<close>, and the sentinel -1, a negative value, otherwise. The C
  function takes a pointer to a constant sensor and calls nothing but
  \<open>hcsr04_is_distance_valid\<close>: in the embedding it is a function of the sensor alone,
  which takes no system and returns neither a system nor a sensor.
\<close>

theorem hcsr04_get_distance_reads:
  "hcsr04_get_distance self =
     (if hcsr04_is_distance_valid self then avg self else - 1) \<and>
   (hcsr04_is_distance_valid self \<longleftrightarrow> sint HCSR04_VALID_SAMPLES \<le> sint (good_count self)) \<and>
   (- 1 :: real) < 0"
  by (simp add: hcsr04_get_distance_def hcsr04_is_distance_valid_sint)

text \<open>The theorem with the counter at 2 and at 4.\<close>

theorem hcsr04_get_distance_reads_witness:
  "hcsr04_get_distance sensor_running = - 1 \<and>
   hcsr04_get_distance (sensor_running\<lparr>good_count := 4\<rparr>) = 1"
  using hcsr04_get_distance_reads [of sensor_running]
    hcsr04_get_distance_reads [of "sensor_running\<lparr>good_count := 4\<rparr>"]
  by (simp add: sensor_running_def hcsr04_create_def HCSR04_VALID_SAMPLES_def)



section \<open>Creating the sensor\<close>

text \<open>
  Claim C10, as amended. \<open>hcsr04_create\<close> returns a sensor for every input and checks
  nothing: the pins and the smoothing factor are stored as given, whatever their
  values, and the cycle period is stored as \<open>cycle_msec * 1000\<close> in the arithmetic of
  \<^verbatim>\<open>int\<close>, with no clamping and no rejection. That is \<open>cycle_msec * 1000\<close> microseconds
  whenever \<open>cycle_msec\<close> is between -2147483 and 2147483, periods below
  \<open>HCSR04_MIN_CYCLE\<close> included.
\<close>

theorem hcsr04_create_stores:
  "sound_pin (hcsr04_create sp ep cm sm) = sp \<and>
   echo_pin (hcsr04_create sp ep cm sm) = ep \<and>
   gpiopin_sound (hcsr04_create sp ep cm sm) = gpiopin_create sp \<and>
   gpiopin_echo (hcsr04_create sp ep cm sm) = gpiopin_create ep \<and>
   smoothing (hcsr04_create sp ep cm sm) = sm \<and>
   cycle_usec (hcsr04_create sp ep cm sm) = cm * 1000 \<and>
   (- 2147483 \<le> sint cm \<and> sint cm \<le> 2147483 \<longrightarrow>
      sint (cycle_usec (hcsr04_create sp ep cm sm)) = sint cm * 1000)"
proof -
  have "sint (cm * 1000) = sint cm * 1000" if "- 2147483 \<le> sint cm" "sint cm \<le> 2147483"
    using that by (simp add: sint_word_ariths signed_take_bit_int_eq_self)
  then show ?thesis by (simp add: hcsr04_create_def)
qed

text \<open>The theorem for a period of 30 milliseconds, below \<open>HCSR04_MIN_CYCLE\<close>, and a
  smoothing factor of 1.5.\<close>

theorem hcsr04_create_stores_witness:
  "- 2147483 \<le> sint (30 :: c_int) \<and> sint (30 :: c_int) \<le> 2147483 \<and>
   sint (30 :: c_int) < sint HCSR04_MIN_CYCLE \<and>
   smoothing (hcsr04_create 17 27 30 (3 / 2)) = 3 / 2 \<and>
   sint (cycle_usec (hcsr04_create 17 27 30 (3 / 2))) = 30000"
  using hcsr04_create_stores [of 17 27 30 "3 / 2"]
  by (simp add: HCSR04_MIN_CYCLE_def)

text \<open>Claim C10 as first stated fails for a period of 2147484 milliseconds: the product
  2147484000 does not fit an \<^verbatim>\<open>int\<close> (in C the multiplication is undefined there; with
  wrap-around the field holds -2147483296).\<close>

theorem hcsr04_create_overflow:
  "sint (cycle_usec (hcsr04_create 17 27 2147484 (1 / 2))) = - 2147483296 \<and>
   sint (2147484 :: c_int) * 1000 = 2147484000"
  by (simp add: hcsr04_create_def)

end
